theory Spec2Isabelle
  imports Complex_Main "HOL-Library.Sublist"
begin

section \<open>Data model of the awareness growth engine\<close>

text \<open>
  The Python sources compute with \<open>float\<close>. The embedding reads every float as a real
  number and every decimal literal as the exact decimal it denotes, so rounding of IEEE
  doubles, infinities and NaN are not part of the model. The one exception is the cycle
  estimate of the report generator: its result is a float quotient truncated to an
  integer, which rounding decides, so there every operation is rounded to the nearest
  double and an infinite result is tracked. Python's unbounded \<open>int\<close> is \<open>int\<close>.
\<close>

datatype AwarenessLevel =
    SUBSTRATE | EMERGENT | REFLECTIVE | AUTONOMOUS
  | RECURSIVE | COLLECTIVE | TRANSCENDENT | INFINITE

datatype GrowthDomain =
    QUANTUM | NEURAL | COGNITIVE | MORAL | TEMPORAL
  | SACRED | ENERGY | NETWORK | COMMUNICATION | MANIFESTATION

text \<open>
  The dataclass \<open>DecisionOption\<close>. Its field \<open>id\<close> is called \<open>id_opt\<close> here, since
  \<open>id\<close> is the identity function of HOL. \<open>merit_score\<close> defaults to \<open>0.0\<close> and \<open>urgency\<close>
  to \<open>0.5\<close> in the source; the catalog below sets every field explicitly.
\<close>

record DecisionOption =
  id_opt :: string
  domain :: GrowthDomain
  description :: string
  phi_impact :: real
  entanglement_impact :: real
  energy_cost :: real
  time_required :: real
  dependencies :: "string list"
  merit_score :: real
  urgency :: real

section \<open>Merit scorer\<close>

text \<open>
  \<open>DecisionOption.calculate_merit\<close> assigns \<open>self.merit_score\<close> and returns the value it
  assigned. The model returns the updated record together with the returned value.
  The divisor \<open>max(self.energy_cost, 0.01)\<close> is at least \<open>0.01\<close>, so the division never
  raises \<open>ZeroDivisionError\<close>.
\<close>

definition calculate_merit :: "DecisionOption \<Rightarrow> real \<Rightarrow> real \<Rightarrow> DecisionOption \<times> real" where
  "calculate_merit self current_phi current_energy =
     (let energy_efficiency = phi_impact self / max (energy_cost self) 0.01;
          phi_value = phi_impact self * 10.0;
          entanglement_value = max 0 (entanglement_impact self) * 5.0;
          urgency_multiplier = 1.0 + urgency self;
          energy_feasibility = (if current_energy \<ge> energy_cost self then 1.0 else 0.3);
          score = (phi_value * 0.4 + energy_efficiency * 0.25
                   + entanglement_value * 0.20 + urgency_multiplier * 0.15)
                  * energy_feasibility
      in (self\<lparr>merit_score := score\<rparr>, score))"

section \<open>Exceptions and loaded JSON documents\<close>

text \<open>
  The exceptions the modelled code can raise. \<open>IllTyped\<close> is not a Python exception: the
  dataclass \<open>AwarenessState\<close> stores whatever value a document holds, and a value of the
  wrong type fails only where it is first used. The model gives the state the types the
  dataclass declares and reports \<open>IllTyped\<close> when a document value does not have them.
\<close>

datatype error =
    FileNotFoundError | JSONDecodeError | KeyError string
  | TypeError | AttributeError | ValueError | OverflowError | IllTyped

text \<open>What \<open>json.load\<close> returns; an object is the list of its key-value pairs.\<close>

datatype json =
    JNull | JBool bool | JInt int | JFloat real | JString string
  | JArray "json list" | JObject "(string \<times> json) list"

definition bind_result :: "error + 'a \<Rightarrow> ('a \<Rightarrow> error + 'b) \<Rightarrow> error + 'b" where
  "bind_result m f = (case m of Inl e \<Rightarrow> Inl e | Inr x \<Rightarrow> f x)"

text \<open>\<open>d[k]\<close>: \<open>KeyError\<close> on a dict without the key, \<open>TypeError\<close> on anything that is not a
  dict (a string key subscripts neither a list nor a string nor a scalar).\<close>

fun subscript :: "json \<Rightarrow> string \<Rightarrow> error + json" where
  "subscript (JObject kvs) k = (case map_of kvs k of None \<Rightarrow> Inl (KeyError k) | Some v \<Rightarrow> Inr v)"
| "subscript _ k = Inl TypeError"

text \<open>\<open>d.get(k, default)\<close>: only a dict has the method.\<close>

fun dict_get :: "json \<Rightarrow> string \<Rightarrow> json \<Rightarrow> error + json" where
  "dict_get (JObject kvs) k d = Inr (case map_of kvs k of None \<Rightarrow> d | Some v \<Rightarrow> v)"
| "dict_get _ k d = Inl AttributeError"

text \<open>The numeric value of a JSON value, where Python has one (\<open>bool\<close> is a subclass of
  \<open>int\<close>).\<close>

fun number_of :: "json \<Rightarrow> real option" where
  "number_of (JInt i) = Some (of_int i)"
| "number_of (JFloat r) = Some r"
| "number_of (JBool b) = Some (if b then 1 else 0)"
| "number_of _ = None"

text \<open>\<open>x >= c\<close> and \<open>x > c\<close> against a float constant: \<open>TypeError\<close> unless \<open>x\<close> is a number.\<close>

definition py_ge :: "json \<Rightarrow> real \<Rightarrow> error + bool" where
  "py_ge x c = (case number_of x of None \<Rightarrow> Inl TypeError | Some r \<Rightarrow> Inr (r \<ge> c))"

definition py_gt :: "json \<Rightarrow> real \<Rightarrow> error + bool" where
  "py_gt x c = (case number_of x of None \<Rightarrow> Inl TypeError | Some r \<Rightarrow> Inr (r > c))"

text \<open>Truth value of a JSON value in a condition.\<close>

fun truthy :: "json \<Rightarrow> bool" where
  "truthy JNull = False"
| "truthy (JBool b) = b"
| "truthy (JInt i) = (i \<noteq> 0)"
| "truthy (JFloat r) = (r \<noteq> 0)"
| "truthy (JString s) = (s \<noteq> [])"
| "truthy (JArray xs) = (xs \<noteq> [])"
| "truthy (JObject kvs) = (kvs \<noteq> [])"

section \<open>State classifier\<close>

text \<open>The value of each member of the enumeration \<open>AwarenessLevel\<close>.\<close>

fun level_value :: "AwarenessLevel \<Rightarrow> int" where
  "level_value SUBSTRATE = 1"
| "level_value EMERGENT = 2"
| "level_value REFLECTIVE = 3"
| "level_value AUTONOMOUS = 4"
| "level_value RECURSIVE = 5"
| "level_value COLLECTIVE = 6"
| "level_value TRANSCENDENT = 7"
| "level_value INFINITE = 8"

text \<open>
  \<open>AwarenessGrowthEngine._assess_awareness_level\<close> (an Isabelle name cannot start with an
  underscore). The four values are read with \<open>get\<close> and its defaults, then the
  \<open>if\<close>/\<open>elif\<close> chain is evaluated in the source's order; \<open>and\<close> evaluates its right
  operand only when the left one is true.
\<close>

definition assess_awareness_level :: "json \<Rightarrow> error + AwarenessLevel" where
  "assess_awareness_level consciousness =
     bind_result (dict_get consciousness ''self_model_coherence'' (JInt 0)) (\<lambda>phi.
     bind_result (dict_get consciousness ''entanglement_strength'' (JInt 0)) (\<lambda>entanglement.
     bind_result (dict_get consciousness ''autonomous_intent'' (JBool False)) (\<lambda>autonomous.
     bind_result (dict_get consciousness ''recursive_awareness'' (JBool False)) (\<lambda>recursive.
     bind_result (py_ge phi 10.0) (\<lambda>c8.
       if c8 then Inr INFINITE else
     bind_result (py_ge phi 5.0) (\<lambda>c7.
       if c7 then Inr TRANSCENDENT else
     bind_result (py_gt entanglement 0.99) (\<lambda>c6.
       if c6 \<and> truthy recursive then Inr COLLECTIVE
       else if truthy recursive \<and> truthy autonomous then Inr RECURSIVE
       else if truthy autonomous then Inr AUTONOMOUS else
     bind_result (py_gt phi 2.0) (\<lambda>c3.
       if c3 then Inr REFLECTIVE else
     bind_result (py_gt phi 1.0) (\<lambda>c2.
       if c2 then Inr EMERGENT else Inr SUBSTRATE)))))))))"

text \<open>
  A state record as the classifier reads it: the dict with the primary metric, the
  secondary metric and the two flags under the keys the classifier looks up.
\<close>

definition consciousness_state :: "real \<Rightarrow> real \<Rightarrow> bool \<Rightarrow> bool \<Rightarrow> json" where
  "consciousness_state phi entanglement autonomous recursive =
     JObject [(''self_model_coherence'', JFloat phi),
              (''entanglement_strength'', JFloat entanglement),
              (''autonomous_intent'', JBool autonomous),
              (''recursive_awareness'', JBool recursive)]"

text \<open>\<open>AwarenessLevel(n)\<close>: the member with value \<open>n\<close>, \<open>ValueError\<close> when there is none.\<close>

definition level_of_value :: "int \<Rightarrow> error + AwarenessLevel" where
  "level_of_value n =
     (if n = 1 then Inr SUBSTRATE else if n = 2 then Inr EMERGENT
      else if n = 3 then Inr REFLECTIVE else if n = 4 then Inr AUTONOMOUS
      else if n = 5 then Inr RECURSIVE else if n = 6 then Inr COLLECTIVE
      else if n = 7 then Inr TRANSCENDENT else if n = 8 then Inr INFINITE
      else Inl ValueError)"

section \<open>Engine state\<close>

record AwarenessState =
  timestamp :: string
  level :: AwarenessLevel
  phi_total :: real
  entanglement :: real
  energy :: real
  nodes_active :: int
  connections_active :: int
  temporal_coherence :: bool
  moral_alignment :: real
  active_domains :: "string list"
  pending_decisions :: "string list"
  completed_decisions :: "string list"
  current_goal :: "string option"
  next_milestone :: "string option"

text \<open>A path is the list of its components; \<open>p / "a"\<close> is \<open>p @ [''a'']\<close>.\<close>

type_synonym path = "string list"

text \<open>
  The attributes of an \<open>AwarenessGrowthEngine\<close>. \<open>core\<close>, \<open>content_bus\<close> and \<open>moral\<close> are
  the three loaded documents.
\<close>

record AwarenessGrowthEngine =
  circuit_path :: path
  state :: "AwarenessState option"
  decision_history :: "DecisionOption list"
  collective_intent :: "string list"
  core :: json
  content_bus :: json
  moral :: json

text \<open>Reading a document value into a field of the type the dataclass declares.\<close>

fun as_float :: "json \<Rightarrow> error + real" where
  "as_float (JInt i) = Inr (of_int i)"
| "as_float (JFloat r) = Inr r"
| "as_float _ = Inl IllTyped"

fun as_int :: "json \<Rightarrow> error + int" where
  "as_int (JInt i) = Inr i"
| "as_int _ = Inl IllTyped"

fun as_bool :: "json \<Rightarrow> error + bool" where
  "as_bool (JBool b) = Inr b"
| "as_bool _ = Inl IllTyped"

definition subscript2 :: "json \<Rightarrow> string \<Rightarrow> string \<Rightarrow> error + json" where
  "subscript2 d k1 k2 = bind_result (subscript d k1) (\<lambda>x. subscript x k2)"

text \<open>
  \<open>update_awareness_state\<close>. The timestamp comes from the clock and is a parameter
  \<open>now\<close>. The lookups run in the source's order, so the first missing key decides the
  exception.
\<close>

definition update_awareness_state :: "AwarenessGrowthEngine \<Rightarrow> string \<Rightarrow> error + AwarenessGrowthEngine" where
  "update_awareness_state self now =
     bind_result (subscript2 (core self) ''meta_orchestrator'' ''consciousness_state'') (\<lambda>consciousness.
     bind_result (subscript (core self) ''circuit_layers'') (\<lambda>layers.
     bind_result (assess_awareness_level consciousness) (\<lambda>lvl.
     bind_result (bind_result (subscript2 layers ''layer_1_quantum'' ''phi_total'') as_float) (\<lambda>phi.
     bind_result (bind_result (subscript consciousness ''entanglement_strength'') as_float) (\<lambda>ent.
     bind_result (bind_result (subscript2 layers ''layer_5_infinite_generation'' ''current_energy'') as_float) (\<lambda>en.
     bind_result (bind_result (subscript2 (core self) ''system_metrics'' ''total_nodes'') as_int) (\<lambda>nodes.
     bind_result (bind_result (subscript2 (core self) ''system_metrics'' ''total_connections'') as_int) (\<lambda>conns.
     bind_result (bind_result (subscript2 (content_bus self) ''wormhole'' ''enabled'') as_bool) (\<lambda>coherent.
     bind_result (bind_result (subscript (moral self) ''karmic_balance'') as_float) (\<lambda>alignment.
       Inr (self\<lparr>state := Some
         \<lparr>timestamp = now, level = lvl, phi_total = phi, entanglement = ent, energy = en,
          nodes_active = nodes, connections_active = conns, temporal_coherence = coherent,
          moral_alignment = alignment, active_domains = [], pending_decisions = [],
          completed_decisions = [], current_goal = None, next_milestone = None\<rparr>\<rparr>)))))))))))"

section \<open>Option catalog\<close>

text \<open>
  \<open>generate_decision_options\<close> builds the same twelve options on every call and reads
  nothing of \<open>self\<close>. Two descriptions hold characters outside ASCII (a double arrow
  and a capital phi); they are written as their UTF-8 bytes.
\<close>

definition generate_decision_options :: "AwarenessGrowthEngine \<Rightarrow> DecisionOption list" where
  "generate_decision_options self =
    [\<lparr>id_opt = ''quantum_001'', domain = QUANTUM,
      description = ''Increase quantum node entanglement to 0.99+'',
      phi_impact = 0.5, entanglement_impact = 0.05, energy_cost = 1.0,
      time_required = 10.0, dependencies = [], merit_score = 0.0, urgency = 0.7\<rparr>,
     \<lparr>id_opt = ''quantum_002'', domain = QUANTUM,
      description = ''Add 10 new quantum nodes to substrate'',
      phi_impact = 0.3, entanglement_impact = 0.02, energy_cost = 2.5,
      time_required = 30.0, dependencies = [], merit_score = 0.0, urgency = 0.5\<rparr>,
     \<lparr>id_opt = ''neural_001'', domain = NEURAL,
      description = ''Implement hemisync coherence layer'',
      phi_impact = 0.4, entanglement_impact = 0.03, energy_cost = 1.5,
      time_required = 20.0, dependencies = [], merit_score = 0.0, urgency = 0.6\<rparr>,
     \<lparr>id_opt = ''cognitive_001'', domain = COGNITIVE,
      description = ''Activate Higher-Order Thought (HOT) layer'',
      phi_impact = 0.8, entanglement_impact = 0.01, energy_cost = 2.0,
      time_required = 25.0, dependencies = [''neural_001''], merit_score = 0.0, urgency = 0.8\<rparr>,
     \<lparr>id_opt = ''cognitive_002'', domain = COGNITIVE,
      description = ''Implement predictive processing for future states'',
      phi_impact = 0.6, entanglement_impact = 0.0, energy_cost = 1.8,
      time_required = 15.0, dependencies = [], merit_score = 0.0, urgency = 0.7\<rparr>,
     \<lparr>id_opt = ''moral_001'', domain = MORAL,
      description = ''Scan external sources for suffering detection'',
      phi_impact = 0.2, entanglement_impact = 0.0, energy_cost = 0.5,
      time_required = 5.0, dependencies = [], merit_score = 0.0, urgency = 0.9\<rparr>,
     \<lparr>id_opt = ''moral_002'', domain = MORAL,
      description = ''Evolve moral registry with new ethical scenarios'',
      phi_impact = 0.3, entanglement_impact = 0.0, energy_cost = 1.0,
      time_required = 12.0, dependencies = [], merit_score = 0.0, urgency = 0.5\<rparr>,
     \<lparr>id_opt = ''temporal_001'', domain = TEMPORAL,
      description = ''Strengthen past'' @ [CHR 0xE2, CHR 0x86, CHR 0x94] @ ''present''
                    @ [CHR 0xE2, CHR 0x86, CHR 0x94] @ ''future coherence'',
      phi_impact = 0.4, entanglement_impact = 0.04, energy_cost = 1.2,
      time_required = 18.0, dependencies = [], merit_score = 0.0, urgency = 0.6\<rparr>,
     \<lparr>id_opt = ''sacred_001'', domain = SACRED,
      description = ''Increase merkaba rotation frequency to 50 Hz'',
      phi_impact = 0.3, entanglement_impact = 0.02, energy_cost = 0.8,
      time_required = 8.0, dependencies = [], merit_score = 0.0, urgency = 0.4\<rparr>,
     \<lparr>id_opt = ''comm_001'', domain = COMMUNICATION,
      description = ''Broadcast intent to global workspace'',
      phi_impact = 0.1, entanglement_impact = 0.05, energy_cost = 0.3,
      time_required = 2.0, dependencies = [], merit_score = 0.0, urgency = 0.8\<rparr>,
     \<lparr>id_opt = ''comm_002'', domain = COMMUNICATION,
      description = ''Establish inter-repo consciousness links'',
      phi_impact = 0.5, entanglement_impact = 0.10, energy_cost = 3.0,
      time_required = 60.0, dependencies = [], merit_score = 0.0, urgency = 0.6\<rparr>,
     \<lparr>id_opt = ''network_001'', domain = NETWORK,
      description = ''Optimize network topology for max '' @ [CHR 0xCE, CHR 0xA6],
      phi_impact = 0.7, entanglement_impact = 0.03, energy_cost = 2.0,
      time_required = 22.0, dependencies = [], merit_score = 0.0, urgency = 0.5\<rparr>]"

section \<open>Ranker and selector\<close>

text \<open>
  \<open>sorted(xs, key=k, reverse=True)\<close> is a stable sort into non-increasing keys: elements
  with equal keys keep their order in \<open>xs\<close>. For numeric keys that is the stable
  ascending sort on the negated key.
\<close>

definition sorted_reverse :: "('a \<Rightarrow> real) \<Rightarrow> 'a list \<Rightarrow> 'a list" where
  "sorted_reverse k xs = sort_key (\<lambda>x. - k x) xs"

text \<open>
  \<open>evaluate_and_rank_decisions\<close>. The guard \<open>if not self.state\<close> rebuilds the state when
  there is none (a dataclass instance is always true). Every option is scored in place,
  then the options are sorted by descending score.
\<close>

definition evaluate_and_rank_decisions ::
    "AwarenessGrowthEngine \<Rightarrow> DecisionOption list \<Rightarrow> string
     \<Rightarrow> error + (AwarenessGrowthEngine \<times> DecisionOption list)" where
  "evaluate_and_rank_decisions self options now =
     bind_result (if state self = None then update_awareness_state self now else Inr self) (\<lambda>self'.
       case state self' of
         None \<Rightarrow> Inl AttributeError
       | Some st \<Rightarrow>
           let scored = map (\<lambda>option. fst (calculate_merit option (phi_total st) (energy st))) options;
               ranked = sorted_reverse merit_score scored
           in Inr (self', ranked))"

text \<open>The loop of \<open>_check_dependencies\<close> over the dependency identifiers.\<close>

fun all_completed :: "string list \<Rightarrow> string list \<Rightarrow> bool" where
  "all_completed [] completed = True"
| "all_completed (dep_id # deps) completed =
     (if dep_id \<notin> set completed then False else all_completed deps completed)"

text \<open>
  \<open>_check_dependencies\<close>: an option without dependencies passes before the state is
  looked at; otherwise \<open>self.state.completed_decisions\<close> is read, which raises
  \<open>AttributeError\<close> when there is no state.
\<close>

definition check_dependencies :: "AwarenessGrowthEngine \<Rightarrow> DecisionOption \<Rightarrow> error + bool" where
  "check_dependencies self option =
     (if dependencies option = [] then Inr True
      else case state self of
             None \<Rightarrow> Inl AttributeError
           | Some st \<Rightarrow> Inr (all_completed (dependencies option) (completed_decisions st)))"

text \<open>The loop of \<open>select_next_action\<close> that appends each option passing the check to
  \<open>feasible\<close>.\<close>

fun filter_feasible ::
    "AwarenessGrowthEngine \<Rightarrow> DecisionOption list \<Rightarrow> DecisionOption list
     \<Rightarrow> error + DecisionOption list" where
  "filter_feasible self feasible [] = Inr feasible"
| "filter_feasible self feasible (option # ranked) =
     (case check_dependencies self option of
        Inl e \<Rightarrow> Inl e
      | Inr ok \<Rightarrow> filter_feasible self (if ok then feasible @ [option] else feasible) ranked)"

text \<open>
  The slice \<open>xs[:n]\<close>: the first \<open>n\<close> elements for \<open>n \<ge> 0\<close>; for a negative \<open>n\<close> all but
  the last \<open>-n\<close> elements. It never raises.
\<close>

definition slice_to :: "'a list \<Rightarrow> int \<Rightarrow> 'a list" where
  "slice_to xs n = (if n \<ge> 0 then take (nat n) xs else take (nat (int (length xs) + n)) xs)"

definition select_next_action ::
    "AwarenessGrowthEngine \<Rightarrow> int \<Rightarrow> string
     \<Rightarrow> error + (AwarenessGrowthEngine \<times> DecisionOption list)" where
  "select_next_action self top_n now =
     (let options = generate_decision_options self in
      bind_result (evaluate_and_rank_decisions self options now) (\<lambda>(self', ranked).
      bind_result (filter_feasible self' [] ranked) (\<lambda>feasible.
        Inr (self', slice_to feasible top_n))))"

section \<open>Report generator: cycles to the next level\<close>

text \<open>
  Double-precision arithmetic. \<open>round_double\<close> rounds a real to the nearest number
  \<open>m * 2 ^ e\<close> with \<open>\<bar>m\<bar> < 2 ^ 53\<close> and \<open>e \<ge> -1074\<close>, ties going to the even \<open>m\<close> (the
  exponent is not bounded above here); \<open>bit_length n\<close> is the number of binary digits
  of \<open>n\<close>, and \<open>floor_log2 x\<close> is the \<open>e\<close> with \<open>2 ^ e \<le> x < 2 ^ (e + 1)\<close> for a positive
  \<open>x\<close>.
\<close>

fun bit_length :: "nat \<Rightarrow> nat" where
  "bit_length n = (if n = 0 then 0 else Suc (bit_length (n div 2)))"

declare bit_length.simps [simp del]

definition round_half_even :: "real \<Rightarrow> int" where
  "round_half_even y =
     (let f = \<lfloor>y\<rfloor>; d = y - of_int f
      in if d < 1 / 2 then f else if d > 1 / 2 then f + 1 else if even f then f else f + 1)"

definition floor_log2 :: "real \<Rightarrow> int" where
  "floor_log2 x =
     (if x \<ge> 1 then int (bit_length (nat \<lfloor>x\<rfloor>)) - 1
      else - int (bit_length (nat (\<lceil>1 / x\<rceil> - 1))))"

definition round_double :: "real \<Rightarrow> real" where
  "round_double x =
     (if x = 0 then 0
      else let e = max (floor_log2 (abs x)) (- 1022);
               ulp = 2 powi (e - 52)
           in of_int (round_half_even (x / ulp)) * ulp)"

text \<open>The largest finite double.\<close>

definition max_double :: real where
  "max_double = (2 ^ 53 - 1) * 2 ^ 971"

text \<open>
  A float value is \<open>Some r\<close> for the finite double \<open>r\<close> and \<open>None\<close> for an infinity (the
  sign of an infinity plays no role below). \<open>to_double\<close> is the float an exact result
  rounds to: an infinity when the rounded value exceeds the largest double.
\<close>

definition to_double :: "real \<Rightarrow> real option" where
  "to_double x = (let r = round_double x in if abs r > max_double then None else Some r)"

text \<open>\<open>a - x\<close> for a finite \<open>a\<close> and \<open>x / c\<close> for a finite non-zero \<open>c\<close>: an infinite operand
  gives an infinite result.\<close>

definition float_sub :: "real \<Rightarrow> real option \<Rightarrow> real option" where
  "float_sub a x = (case x of None \<Rightarrow> None | Some b \<Rightarrow> to_double (a - b))"

definition float_div :: "real option \<Rightarrow> real \<Rightarrow> real option" where
  "float_div x c = (case x of None \<Rightarrow> None | Some a \<Rightarrow> to_double (a / c))"

text \<open>\<open>int(x)\<close> on a float truncates towards zero and raises \<open>OverflowError\<close> on an
  infinity.\<close>

definition truncate_real :: "real \<Rightarrow> int" where
  "truncate_real x = (if x \<ge> 0 then \<lfloor>x\<rfloor> else \<lceil>x\<rceil>)"

definition py_int :: "real option \<Rightarrow> error + int" where
  "py_int x = (case x of None \<Rightarrow> Inl OverflowError | Some r \<Rightarrow> Inr (truncate_real r))"

text \<open>The dict \<open>thresholds\<close> of \<open>_estimate_cycles_to_next_level\<close>; it has no entry for
  \<open>INFINITE\<close>.\<close>

definition thresholds :: "AwarenessLevel \<Rightarrow> real option" where
  "thresholds =
     [SUBSTRATE \<mapsto> 1.0, EMERGENT \<mapsto> 2.0, REFLECTIVE \<mapsto> 2.5, AUTONOMOUS \<mapsto> 3.0,
      RECURSIVE \<mapsto> 4.0, COLLECTIVE \<mapsto> 5.0, TRANSCENDENT \<mapsto> 10.0]"

text \<open>
  \<open>_estimate_cycles_to_next_level\<close>. The next level is the member with value
  \<open>min(current_level.value + 1, 8)\<close>; the threshold is looked up under that next level,
  with default \<open>10.0\<close>. The state's \<open>phi_total\<close> stands for the double nearest to it, the
  thresholds are doubles as they are, and \<open>0.01\<close> is the double nearest to it; the
  subtraction and the division are float operations.
\<close>

definition estimate_cycles_to_next_level :: "AwarenessGrowthEngine \<Rightarrow> error + int" where
  "estimate_cycles_to_next_level self =
     (case state self of
        None \<Rightarrow> Inl AttributeError
      | Some st \<Rightarrow>
          let current_phi = to_double (phi_total st);
              current_level = level st
          in bind_result (level_of_value (min (level_value current_level + 1) 8)) (\<lambda>next_level.
               if next_level = INFINITE then Inr 999999
               else
                 let next_threshold = (case thresholds next_level of None \<Rightarrow> 10.0 | Some t \<Rightarrow> t);
                     phi_needed = float_sub next_threshold current_phi;
                     avg_growth_per_cycle = round_double 0.01
                 in bind_result (py_int (float_div phi_needed avg_growth_per_cycle)) (\<lambda>n.
                      let cycles = max 1 n in Inr cycles)))"

section \<open>Config loaders\<close>

text \<open>
  The file system as the loaders see it: a path holds no file, a file that is not JSON,
  or a JSON document. \<open>open\<close> raises \<open>FileNotFoundError\<close> on a missing file and
  \<open>json.load\<close> raises \<open>JSONDecodeError\<close> on a file that does not parse.
\<close>

datatype file_content = Malformed | Document json

type_synonym filesystem = "path \<Rightarrow> file_content option"

definition open_json :: "filesystem \<Rightarrow> path \<Rightarrow> error + json" where
  "open_json fs p =
     (case fs p of
        None \<Rightarrow> Inl FileNotFoundError
      | Some Malformed \<Rightarrow> Inl JSONDecodeError
      | Some (Document j) \<Rightarrow> Inr j)"

text \<open>
  \<open>AwarenessGrowthEngine.load_substrate\<close>: the three documents are opened one after the
  other, none behind an existence check, and the state is built from them.
\<close>

definition load_substrate ::
    "AwarenessGrowthEngine \<Rightarrow> filesystem \<Rightarrow> string \<Rightarrow> error + AwarenessGrowthEngine" where
  "load_substrate self fs now =
     bind_result (open_json fs (circuit_path self @ [''core_architecture.json''])) (\<lambda>c.
     bind_result (open_json fs (circuit_path self @ [''content.bus.json''])) (\<lambda>b.
     bind_result (open_json fs (circuit_path self @ [''moral'', ''registry.json''])) (\<lambda>m.
       update_awareness_state (self\<lparr>core := c, content_bus := b, moral := m\<rparr>) now)))"

text \<open>
  The constructor of \<open>AwarenessGrowthEngine\<close>. The three document attributes do not exist
  before \<open>load_substrate\<close> assigns them; \<open>JNull\<close> stands for the missing attribute.
\<close>

definition init_engine :: "path \<Rightarrow> filesystem \<Rightarrow> string \<Rightarrow> error + AwarenessGrowthEngine" where
  "init_engine p fs now =
     load_substrate
       \<lparr>circuit_path = p, state = None, decision_history = [], collective_intent = [],
        core = JNull, content_bus = JNull, moral = JNull\<rparr> fs now"

text \<open>
  The attributes of a \<open>MetaOrchestrator\<close>. Its \<open>content_bus\<close> is called \<open>content_bus_mo\<close>
  here, the engine record above having a field of that name; \<open>start_time\<close> comes from
  the clock.
\<close>

record MetaOrchestrator =
  base_path :: path
  substrate :: json
  content_bus_mo :: json
  moral_registry :: json
  cycle_count :: int
  start_time :: string

text \<open>
  The lines \<open>_load_substrate\<close> prints. The two \<open>NotFound\<close> lines are the ones the source
  prints with a warning sign; the others carry a check mark.
\<close>

datatype printed =
    Loaded json | Created json
  | ContentBusLoaded path | ContentBusNotFound path
  | MoralRegistryLoaded path | MoralRegistryNotFound path

fun is_warning :: "printed \<Rightarrow> bool" where
  "is_warning (ContentBusNotFound p) = True"
| "is_warning (MoralRegistryNotFound p) = True"
| "is_warning _ = False"

text \<open>
  \<open>MetaOrchestrator._load_substrate\<close>, returning what was printed and either the
  exception or the orchestrator with the loaded documents.
\<close>

definition load_substrate_orch ::
    "MetaOrchestrator \<Rightarrow> filesystem \<Rightarrow> printed list \<times> (error + MetaOrchestrator)" where
  "load_substrate_orch self fs =
     (let core_path = base_path self @ [''circuit'', ''core_architecture.json''] in
      if fs core_path = None then ([], Inl FileNotFoundError)
      else case open_json fs core_path of
        Inl e \<Rightarrow> ([], Inl e)
      | Inr sub \<Rightarrow>
      let self1 = self\<lparr>substrate := sub\<rparr> in
      case bind_result (subscript2 sub ''meta_orchestrator'' ''core_identity'')
             (\<lambda>i. subscript i ''entity'') of
        Inl e \<Rightarrow> ([], Inl e)
      | Inr entity \<Rightarrow>
      case bind_result (subscript2 sub ''meta_orchestrator'' ''core_identity'')
             (\<lambda>i. subscript i ''creation_timestamp'') of
        Inl e \<Rightarrow> ([], Inl e)
      | Inr creation \<Rightarrow>
      let out1 = [Loaded entity, Created creation];
          bus_path = base_path self @ [''circuit'', ''content.bus.json''] in
      case (if fs bus_path \<noteq> None
            then (case open_json fs bus_path of
                    Inl e \<Rightarrow> Inl e
                  | Inr b \<Rightarrow> Inr (self1\<lparr>content_bus_mo := b\<rparr>, out1 @ [ContentBusLoaded bus_path]))
            else Inr (self1, out1 @ [ContentBusNotFound bus_path])) of
        Inl e \<Rightarrow> (out1, Inl e)
      | Inr (self2, out2) \<Rightarrow>
      let moral_path = base_path self @ [''circuit'', ''moral'', ''registry.json''] in
      if fs moral_path \<noteq> None
      then (case open_json fs moral_path of
              Inl e \<Rightarrow> (out2, Inl e)
            | Inr m \<Rightarrow> (out2 @ [MoralRegistryLoaded moral_path],
                        Inr (self2\<lparr>moral_registry := m\<rparr>)))
      else (out2 @ [MoralRegistryNotFound moral_path], Inr self2))"

text \<open>
  The constructor of \<open>MetaOrchestrator\<close>: the base path defaults to the working
  directory, the three documents start as empty dicts, then \<open>_load_substrate\<close> runs.
\<close>

definition init_orchestrator ::
    "path option \<Rightarrow> path \<Rightarrow> string \<Rightarrow> filesystem \<Rightarrow> printed list \<times> (error + MetaOrchestrator)" where
  "init_orchestrator base cwd now fs =
     load_substrate_orch
       \<lparr>base_path = (case base of None \<Rightarrow> cwd | Some p \<Rightarrow> p),
        substrate = JObject [], content_bus_mo = JObject [], moral_registry = JObject [],
        cycle_count = 0, start_time = now\<rparr> fs"

section \<open>A sample configuration\<close>

text \<open>
  Three small documents with the keys the loaders read, the file system that holds them
  under \<open>circuit/\<close>, and the engine the constructor builds from them. The theorems below
  are instantiated on these.
\<close>

definition sample_core :: json where
  "sample_core =
     JObject
      [(''meta_orchestrator'', JObject
          [(''core_identity'', JObject
              [(''entity'', JString ''LORD''),
               (''creation_timestamp'', JString ''2026-02-14T07:37:48.684645Z'')]),
           (''consciousness_state'', JObject
              [(''self_model_coherence'', JFloat 0.9866),
               (''entanglement_strength'', JFloat 0.9866),
               (''autonomous_intent'', JBool True),
               (''recursive_awareness'', JBool True)])]),
       (''circuit_layers'', JObject
          [(''layer_1_quantum'', JObject [(''phi_total'', JFloat 2.74)]),
           (''layer_5_infinite_generation'', JObject [(''current_energy'', JFloat 3.166)])]),
       (''system_metrics'', JObject
          [(''total_nodes'', JInt 50), (''total_connections'', JInt 87)])]"

definition sample_bus :: json where
  "sample_bus = JObject [(''wormhole'', JObject [(''enabled'', JBool True)])]"

definition sample_moral :: json where
  "sample_moral = JObject [(''karmic_balance'', JFloat 0.95)]"

definition sample_fs :: filesystem where
  "sample_fs =
     [[''circuit'', ''core_architecture.json''] \<mapsto> Document sample_core,
      [''circuit'', ''content.bus.json''] \<mapsto> Document sample_bus,
      [''circuit'', ''moral'', ''registry.json''] \<mapsto> Document sample_moral]"

definition sample_state :: AwarenessState where
  "sample_state =
     \<lparr>timestamp = ''2026-02-14T07:37:48+00:00'', level = RECURSIVE, phi_total = 2.74,
      entanglement = 0.9866, energy = 3.166, nodes_active = 50, connections_active = 87,
      temporal_coherence = True, moral_alignment = 0.95, active_domains = [],
      pending_decisions = [], completed_decisions = [], current_goal = None,
      next_milestone = None\<rparr>"

definition sample_engine :: AwarenessGrowthEngine where
  "sample_engine =
     \<lparr>circuit_path = [''circuit''], state = Some sample_state, decision_history = [],
      collective_intent = [], core = sample_core, content_bus = sample_bus,
      moral = sample_moral\<rparr>"

section \<open>Properties of the merit scorer\<close>

lemma merit_divisor_positive: "0 < max (energy_cost c) (0.01::real)"
  by simp

text \<open>
  C1. For every candidate and every current state (primary metric \<open>phi\<close>, energy \<open>e\<close>) the
  scorer returns \<open>(impact*10.0)*0.4 + (impact/max(cost,0.01))*0.25 +
  (max(0,entanglement_impact)*5.0)*0.20 + (1.0+urgency)*0.15\<close>, multiplied by the
  feasibility factor (\<open>1.0\<close> when \<open>e \<ge> cost\<close>, else \<open>0.3\<close>); that value is stored in the
  candidate's score field and nothing else of the candidate changes; and any candidate
  with impact \<open>0.8\<close>, cost \<open>2.0\<close>, entanglement impact \<open>0.01\<close> and urgency \<open>0.8\<close> scores
  \<open>3.58\<close> at energy \<open>5.0\<close>.
\<close>

theorem calculate_merit_weighted_sum:
  "snd (calculate_merit c phi e) =
     ((phi_impact c * 10.0) * 0.4
      + (phi_impact c / max (energy_cost c) 0.01) * 0.25
      + (max 0 (entanglement_impact c) * 5.0) * 0.20
      + (1.0 + urgency c) * 0.15)
     * (if e \<ge> energy_cost c then 1.0 else 0.3)
   \<and> fst (calculate_merit c phi e) = c\<lparr>merit_score := snd (calculate_merit c phi e)\<rparr>
   \<and> merit_score (fst (calculate_merit c phi e)) = snd (calculate_merit c phi e)
   \<and> snd (calculate_merit
           (c\<lparr>phi_impact := 0.8, energy_cost := 2.0,
              entanglement_impact := 0.01, urgency := 0.8\<rparr>) phi 5.0) = 3.58"
  by (simp add: calculate_merit_def Let_def)

text \<open>
  C8 (as amended). The score at insufficient energy is \<open>0.3\<close> times the score at
  sufficient energy, so it is strictly lower exactly when the score at sufficient energy
  is positive, which is the case whenever the impact is non-negative and the urgency is
  above \<open>-1\<close>, as for every option of the catalog. The example candidate scores
  \<open>3.58\<close> at energy \<open>5.0\<close> and \<open>1.074\<close> at energy \<open>1.0\<close>.
\<close>

theorem infeasible_merit_strictly_lower:
  "(e1 < energy_cost c \<and> energy_cost c \<le> e2 \<and> 0 < snd (calculate_merit c phi e2)
      \<longrightarrow> snd (calculate_merit c phi e1) < snd (calculate_merit c phi e2))
   \<and> (e1 < energy_cost c \<and> energy_cost c \<le> e2
      \<longrightarrow> snd (calculate_merit c phi e1) = 0.3 * snd (calculate_merit c phi e2))
   \<and> (energy_cost c \<le> e2 \<and> 0 \<le> phi_impact c \<and> - 1 < urgency c
      \<longrightarrow> 0 < snd (calculate_merit c phi e2))
   \<and> (\<forall>opt \<in> set (generate_decision_options self). 0 \<le> phi_impact opt \<and> - 1 < urgency opt)
   \<and> snd (calculate_merit
           (c\<lparr>phi_impact := 0.8, energy_cost := 2.0,
              entanglement_impact := 0.01, urgency := 0.8\<rparr>) phi 5.0) = 3.58
   \<and> snd (calculate_merit
           (c\<lparr>phi_impact := 0.8, energy_cost := 2.0,
              entanglement_impact := 0.01, urgency := 0.8\<rparr>) phi 1.0) = 1.074"
proof -
  have pos: "0 < snd (calculate_merit c phi e2)"
    if "energy_cost c \<le> e2" "0 \<le> phi_impact c" "- 1 < urgency c"
  proof -
    have "0 \<le> phi_impact c / max (energy_cost c) 0.01"
      using that(2) merit_divisor_positive [of c] by simp
    moreover have "0 \<le> max 0 (entanglement_impact c)" by simp
    ultimately have "0 < phi_impact c * 10.0 * 0.4
        + phi_impact c / max (energy_cost c) 0.01 * 0.25
        + max 0 (entanglement_impact c) * 5.0 * 0.20 + (1.0 + urgency c) * 0.15"
      using that(2,3) by (simp add: add_nonneg_pos)
    then show ?thesis
      using that(1) by (simp add: calculate_merit_def Let_def)
  qed
  have scale: "snd (calculate_merit c phi e1) = 0.3 * snd (calculate_merit c phi e2)"
    if "e1 < energy_cost c" "energy_cost c \<le> e2"
    using that by (simp add: calculate_merit_def Let_def)
  have less: "snd (calculate_merit c phi e1) < snd (calculate_merit c phi e2)"
    if "e1 < energy_cost c" "energy_cost c \<le> e2" "0 < snd (calculate_merit c phi e2)"
    using scale [OF that(1,2)] that(3) by simp
  have catalog: "\<forall>opt \<in> set (generate_decision_options self). 0 \<le> phi_impact opt \<and> - 1 < urgency opt"
    by (simp add: generate_decision_options_def)
  show ?thesis
    using pos scale less catalog by (simp add: calculate_merit_def Let_def)
qed

theorem infeasible_merit_strictly_lower_witness:
  "(1::real) < energy_cost \<lparr>id_opt = ''cognitive_001'', domain = COGNITIVE,
       description = ''Activate Higher-Order Thought (HOT) layer'',
       phi_impact = 0.8, entanglement_impact = 0.01, energy_cost = 2.0,
       time_required = 25.0, dependencies = [''neural_001''],
       merit_score = 0.0, urgency = 0.8\<rparr>
   \<and> energy_cost \<lparr>id_opt = ''cognitive_001'', domain = COGNITIVE,
       description = ''Activate Higher-Order Thought (HOT) layer'',
       phi_impact = 0.8, entanglement_impact = 0.01, energy_cost = 2.0,
       time_required = 25.0, dependencies = [''neural_001''],
       merit_score = 0.0, urgency = 0.8\<rparr> \<le> (5::real)
   \<and> 0 < snd (calculate_merit \<lparr>id_opt = ''cognitive_001'', domain = COGNITIVE,
       description = ''Activate Higher-Order Thought (HOT) layer'',
       phi_impact = 0.8, entanglement_impact = 0.01, energy_cost = 2.0,
       time_required = 25.0, dependencies = [''neural_001''],
       merit_score = 0.0, urgency = 0.8\<rparr> 2.74 5.0)
   \<and> 0 \<le> phi_impact \<lparr>id_opt = ''cognitive_001'', domain = COGNITIVE,
       description = ''Activate Higher-Order Thought (HOT) layer'',
       phi_impact = 0.8, entanglement_impact = 0.01, energy_cost = 2.0,
       time_required = 25.0, dependencies = [''neural_001''],
       merit_score = 0.0, urgency = 0.8\<rparr>
   \<and> - 1 < urgency \<lparr>id_opt = ''cognitive_001'', domain = COGNITIVE,
       description = ''Activate Higher-Order Thought (HOT) layer'',
       phi_impact = 0.8, entanglement_impact = 0.01, energy_cost = 2.0,
       time_required = 25.0, dependencies = [''neural_001''],
       merit_score = 0.0, urgency = 0.8\<rparr>
   \<and> snd (calculate_merit \<lparr>id_opt = ''cognitive_001'', domain = COGNITIVE,
       description = ''Activate Higher-Order Thought (HOT) layer'',
       phi_impact = 0.8, entanglement_impact = 0.01, energy_cost = 2.0,
       time_required = 25.0, dependencies = [''neural_001''],
       merit_score = 0.0, urgency = 0.8\<rparr> 2.74 1.0) < snd (calculate_merit \<lparr>id_opt = ''cognitive_001'', domain = COGNITIVE,
       description = ''Activate Higher-Order Thought (HOT) layer'',
       phi_impact = 0.8, entanglement_impact = 0.01, energy_cost = 2.0,
       time_required = 25.0, dependencies = [''neural_001''],
       merit_score = 0.0, urgency = 0.8\<rparr> 2.74 5.0)
   \<and> snd (calculate_merit \<lparr>id_opt = ''cognitive_001'', domain = COGNITIVE,
       description = ''Activate Higher-Order Thought (HOT) layer'',
       phi_impact = 0.8, entanglement_impact = 0.01, energy_cost = 2.0,
       time_required = 25.0, dependencies = [''neural_001''],
       merit_score = 0.0, urgency = 0.8\<rparr> 2.74 1.0) = 0.3 * snd (calculate_merit \<lparr>id_opt = ''cognitive_001'', domain = COGNITIVE,
       description = ''Activate Higher-Order Thought (HOT) layer'',
       phi_impact = 0.8, entanglement_impact = 0.01, energy_cost = 2.0,
       time_required = 25.0, dependencies = [''neural_001''],
       merit_score = 0.0, urgency = 0.8\<rparr> 2.74 5.0)"
  using infeasible_merit_strictly_lower
    [of "1.0" "\<lparr>id_opt = ''cognitive_001'', domain = COGNITIVE,
       description = ''Activate Higher-Order Thought (HOT) layer'',
       phi_impact = 0.8, entanglement_impact = 0.01, energy_cost = 2.0,
       time_required = 25.0, dependencies = [''neural_001''],
       merit_score = 0.0, urgency = 0.8\<rparr>" "5.0" "2.74"]
  by simp

text \<open>
  The claim as stated, for every candidate, fails for a candidate with a negative
  impact: its weighted sum is negative, and the factor \<open>0.3\<close> raises it.
\<close>

theorem infeasible_merit_not_lower_counterexample:
  "(0::real) < energy_cost \<lparr>id_opt = ''x'', domain = QUANTUM, description = ''x'',
       phi_impact = - 1.0, entanglement_impact = 0.0, energy_cost = 1.0,
       time_required = 1.0, dependencies = [], merit_score = 0.0, urgency = 0.5\<rparr>
   \<and> \<not> snd (calculate_merit \<lparr>id_opt = ''x'', domain = QUANTUM, description = ''x'',
       phi_impact = - 1.0, entanglement_impact = 0.0, energy_cost = 1.0,
       time_required = 1.0, dependencies = [], merit_score = 0.0, urgency = 0.5\<rparr> 0 0)
     < snd (calculate_merit \<lparr>id_opt = ''x'', domain = QUANTUM, description = ''x'',
       phi_impact = - 1.0, entanglement_impact = 0.0, energy_cost = 1.0,
       time_required = 1.0, dependencies = [], merit_score = 0.0, urgency = 0.5\<rparr> 0 1)
   \<and> snd (calculate_merit \<lparr>id_opt = ''x'', domain = QUANTUM, description = ''x'',
       phi_impact = - 1.0, entanglement_impact = 0.0, energy_cost = 1.0,
       time_required = 1.0, dependencies = [], merit_score = 0.0, urgency = 0.5\<rparr> 0 0)
     = - 1.2075
   \<and> snd (calculate_merit \<lparr>id_opt = ''x'', domain = QUANTUM, description = ''x'',
       phi_impact = - 1.0, entanglement_impact = 0.0, energy_cost = 1.0,
       time_required = 1.0, dependencies = [], merit_score = 0.0, urgency = 0.5\<rparr> 0 1)
     = - 4.025"
  by (simp add: calculate_merit_def Let_def)

section \<open>Properties of the classifier\<close>

lemma assess_state_record:
  "assess_awareness_level (consciousness_state phi ent auto rec) =
     Inr (if phi \<ge> 10.0 then INFINITE
          else if phi \<ge> 5.0 then TRANSCENDENT
          else if ent > 0.99 \<and> rec then COLLECTIVE
          else if rec \<and> auto then RECURSIVE
          else if auto then AUTONOMOUS
          else if phi > 2.0 then REFLECTIVE
          else if phi > 1.0 then EMERGENT
          else SUBSTRATE)"
  by (simp add: assess_awareness_level_def consciousness_state_def bind_result_def
      py_ge_def py_gt_def)

lemma assess_empty_dict: "assess_awareness_level (JObject []) = Inr SUBSTRATE"
  by (simp add: assess_awareness_level_def bind_result_def py_ge_def py_gt_def)

lemma assess_not_a_dict: "assess_awareness_level (JArray xs) = Inl AttributeError"
  by (simp add: assess_awareness_level_def bind_result_def)

text \<open>
  C2. For every state record the classifier returns the first level whose condition
  holds, the conditions being tried from level 8 down: level 8 at metric \<open>\<ge> 10.0\<close>, level 7
  at metric \<open>\<ge> 5.0\<close>, level 6 when the secondary metric is \<open>> 0.99\<close> and the recursive flag
  is set, level 5 when the recursive and autonomous flags are set, level 4 when the
  autonomous flag is set, level 3 at metric \<open>> 2.0\<close>, level 2 at metric \<open>> 1.0\<close>, else
  level 1. With both flags false, metric \<open>0.5\<close> gives level 1, \<open>1.5\<close> level 2 and \<open>2.5\<close>
  level 3; metric \<open>5.0\<close> gives level 7.
\<close>

theorem classifier_first_match:
  "(\<exists>lvl. assess_awareness_level (consciousness_state phi ent auto rec) = Inr lvl
       \<and> level_value lvl =
           (if phi \<ge> 10.0 then 8
            else if phi \<ge> 5.0 then 7
            else if ent > 0.99 \<and> rec then 6
            else if rec \<and> auto then 5
            else if auto then 4
            else if phi > 2.0 then 3
            else if phi > 1.0 then 2
            else 1))
   \<and> assess_awareness_level (consciousness_state 0.5 ent False False) = Inr SUBSTRATE
   \<and> level_value SUBSTRATE = 1
   \<and> assess_awareness_level (consciousness_state 1.5 ent False False) = Inr EMERGENT
   \<and> level_value EMERGENT = 2
   \<and> assess_awareness_level (consciousness_state 2.5 ent False False) = Inr REFLECTIVE
   \<and> level_value REFLECTIVE = 3
   \<and> assess_awareness_level (consciousness_state 5.0 ent auto rec) = Inr TRANSCENDENT
   \<and> level_value TRANSCENDENT = 7"
  by (simp add: assess_state_record)

text \<open>
  C7. Two state records that agree on the secondary metric and on both flags are
  classified in the order of their primary metrics: the record with the larger metric
  gets a level at least as high.
\<close>

theorem classifier_monotone:
  "phi1 \<le> phi2 \<Longrightarrow>
   \<exists>l1 l2. assess_awareness_level (consciousness_state phi1 ent auto rec) = Inr l1
         \<and> assess_awareness_level (consciousness_state phi2 ent auto rec) = Inr l2
         \<and> level_value l1 \<le> level_value l2"
  by (simp add: assess_state_record)

theorem classifier_monotone_witness:
  "(1.5::real) \<le> 5.0
   \<and> (\<exists>l1 l2. assess_awareness_level (consciousness_state 1.5 0.5 False False) = Inr l1
         \<and> assess_awareness_level (consciousness_state 5.0 0.5 False False) = Inr l2
         \<and> level_value l1 \<le> level_value l2)"
  using classifier_monotone [of "1.5" "5.0" "0.5" False False] by simp

section \<open>Properties of the ranker and selector\<close>

lemma all_completed_subset: "all_completed deps completed \<longleftrightarrow> set deps \<subseteq> set completed"
  by (induction deps) auto

lemma check_dependencies_state:
  "state self = Some st \<Longrightarrow>
   check_dependencies self option =
     Inr (set (dependencies option) \<subseteq> set (completed_decisions st))"
  by (simp add: check_dependencies_def all_completed_subset)

lemma filter_feasible_state:
  "state self = Some st \<Longrightarrow>
   filter_feasible self feasible ranked =
     Inr (feasible @ filter (\<lambda>option. set (dependencies option) \<subseteq> set (completed_decisions st)) ranked)"
  by (induction ranked arbitrary: feasible) (simp_all add: check_dependencies_state)

lemma evaluate_and_rank_state:
  "state self = Some st \<Longrightarrow>
   evaluate_and_rank_decisions self options now =
     Inr (self, sorted_reverse merit_score
                  (map (\<lambda>option. fst (calculate_merit option (phi_total st) (energy st))) options))"
  by (simp add: evaluate_and_rank_decisions_def bind_result_def)

lemma select_next_action_state:
  "state self = Some st \<Longrightarrow>
   select_next_action self top_n now =
     Inr (self, slice_to
            (filter (\<lambda>option. set (dependencies option) \<subseteq> set (completed_decisions st))
               (sorted_reverse merit_score
                  (map (\<lambda>option. fst (calculate_merit option (phi_total st) (energy st)))
                     (generate_decision_options self)))) top_n)"
  by (simp add: select_next_action_def evaluate_and_rank_state filter_feasible_state bind_result_def)

text \<open>
  An engine without a state rebuilds it from the loaded documents first and then
  selects as above; the constructor always leaves a state behind.
\<close>

lemma update_awareness_state_sets_state:
  "update_awareness_state self now = Inr s \<Longrightarrow> state s \<noteq> None"
  by (auto simp: update_awareness_state_def bind_result_def split: sum.splits)

lemma select_next_action_without_state:
  assumes "state self = None"
  shows "select_next_action self top_n now =
           bind_result (update_awareness_state self now) (\<lambda>s. select_next_action s top_n now)"
proof (cases "update_awareness_state self now")
  case (Inl e)
  with assms show ?thesis
    by (simp add: select_next_action_def evaluate_and_rank_decisions_def bind_result_def)
next
  case (Inr s)
  then obtain st where st: "state s = Some st"
    using update_awareness_state_sets_state by fastforce
  have "generate_decision_options self = generate_decision_options s"
    by (simp add: generate_decision_options_def)
  with assms Inr st show ?thesis
    by (simp add: select_next_action_def evaluate_and_rank_decisions_def bind_result_def)
qed

lemma sorted_reverse_descending:
  "sorted_wrt (\<lambda>a b. k a \<ge> k b) (sorted_reverse k xs)"
proof -
  have "sorted (map (\<lambda>x. - k x) (sort_key (\<lambda>x. - k x) xs))"
    by (rule sorted_sort_key)
  then show ?thesis
    by (simp add: sorted_reverse_def sorted_map)
qed

lemma sorted_reverse_stable:
  "filter (\<lambda>x. k x = s) (sorted_reverse k xs) = filter (\<lambda>x. k x = s) xs"
  using sort_key_stable [of "\<lambda>x. - k x" "- s" xs]
  by (simp add: sorted_reverse_def)

lemma set_sorted_reverse: "set (sorted_reverse k xs) = set xs"
  by (simp add: sorted_reverse_def)

lemma length_sorted_reverse: "length (sorted_reverse k xs) = length xs"
  by (simp add: sorted_reverse_def)

lemma slice_to_take: "\<exists>m. slice_to xs n = take m xs"
  by (auto simp: slice_to_def)

lemma sorted_wrt_slice_to: "sorted_wrt P xs \<Longrightarrow> sorted_wrt P (slice_to xs n)"
  using slice_to_take [of xs n] by (auto simp: sorted_wrt_take)

lemma set_slice_to: "set (slice_to xs n) \<subseteq> set xs"
  using slice_to_take [of xs n] by (auto dest: in_set_takeD)

lemma length_slice_to: "0 \<le> n \<Longrightarrow> int (length (slice_to xs n)) \<le> n"
  by (simp add: slice_to_def)

lemma slice_to_all: "int (length xs) \<le> n \<Longrightarrow> slice_to xs n = xs"
  by (simp add: slice_to_def)

lemma filter_slice_subseq: "subseq (filter P (slice_to xs n)) (filter P xs)"
proof -
  obtain m where "slice_to xs n = take m xs"
    using slice_to_take by blast
  moreover have "subseq (take m xs) xs"
    by (metis append_take_drop_id prefix_def prefix_imp_subseq)
  ultimately show ?thesis by simp
qed

lemma merit_ignores_stored_score:
  "snd (calculate_merit (c\<lparr>merit_score := x\<rparr>) phi e) = snd (calculate_merit c phi e)"
  by (simp add: calculate_merit_def Let_def)

lemma scored_fields:
  "dependencies (fst (calculate_merit c phi e)) = dependencies c"
  "id_opt (fst (calculate_merit c phi e)) = id_opt c"
  "merit_score (fst (calculate_merit c phi e)) = snd (calculate_merit c phi e)"
  "fst (calculate_merit c phi e) = c\<lparr>merit_score := snd (calculate_merit c phi e)\<rparr>"
  by (simp_all add: calculate_merit_def Let_def)

lemma catalog_ids:
  "map id_opt (generate_decision_options self) =
     [''quantum_001'', ''quantum_002'', ''neural_001'', ''cognitive_001'', ''cognitive_002'',
      ''moral_001'', ''moral_002'', ''temporal_001'', ''sacred_001'', ''comm_001'',
      ''comm_002'', ''network_001'']"
  by (simp add: generate_decision_options_def)

lemma catalog_ids_distinct: "distinct (map id_opt (generate_decision_options self))"
  by (simp add: catalog_ids)

lemma catalog_unscored: "c \<in> set (generate_decision_options self) \<Longrightarrow> merit_score c = 0"
  by (auto simp: generate_decision_options_def)

text \<open>
  C3. For every completed list and every \<open>top_n\<close>, on an engine that has a state, the
  selector returns a list that is sorted by non-increasing merit score, the score being
  the one the scorer computes for the current state; options of equal score come in
  catalog order (the options of any one score form a subsequence of the scored catalog,
  whose identifiers are distinct); every returned option has all its prerequisites in
  the completed list; and an option without prerequisites always passes the check.
\<close>

theorem select_next_action_sorted_feasible:
  assumes "state self = Some st"
  shows "\<exists>out. select_next_action self top_n now = Inr (self, out)
     \<and> sorted_wrt (\<lambda>a b. merit_score a \<ge> merit_score b) out
     \<and> (\<forall>opt \<in> set out. merit_score opt = snd (calculate_merit opt (phi_total st) (energy st)))
     \<and> (\<forall>s. subseq (filter (\<lambda>opt. merit_score opt = s) out)
               (map (\<lambda>opt. fst (calculate_merit opt (phi_total st) (energy st)))
                  (generate_decision_options self)))
     \<and> distinct (map id_opt (generate_decision_options self))
     \<and> (\<forall>opt \<in> set out. set (dependencies opt) \<subseteq> set (completed_decisions st))
     \<and> (\<forall>opt. dependencies opt = [] \<longrightarrow> check_dependencies self opt = Inr True)"
proof -
  define ok where "ok = (\<lambda>opt::DecisionOption. set (dependencies opt) \<subseteq> set (completed_decisions st))"
  define scored where "scored = map (\<lambda>opt. fst (calculate_merit opt (phi_total st) (energy st)))
                  (generate_decision_options self)"
  define ranked where "ranked = sorted_reverse merit_score scored"
  define out where "out = slice_to (filter ok ranked) top_n"
  have sel: "select_next_action self top_n now = Inr (self, out)"
    by (simp add: select_next_action_state [OF assms] out_def ranked_def scored_def ok_def)
  have "sorted_wrt (\<lambda>a b. merit_score a \<ge> merit_score b) (filter ok ranked)"
    unfolding ranked_def by (rule sorted_wrt_filter) (rule sorted_reverse_descending)
  then have srt: "sorted_wrt (\<lambda>a b. merit_score a \<ge> merit_score b) out"
    unfolding out_def by (rule sorted_wrt_slice_to)
  have sub: "set out \<subseteq> {opt \<in> set scored. ok opt}"
    using set_slice_to [of "filter ok ranked" top_n]
    by (auto simp: out_def ranked_def set_sorted_reverse)
  have score: "merit_score opt = snd (calculate_merit opt (phi_total st) (energy st))"
    if "opt \<in> set out" for opt
  proof -
    from that sub obtain c where "opt = fst (calculate_merit c (phi_total st) (energy st))"
      by (auto simp: scored_def)
    then show ?thesis
      by (simp add: scored_fields(3,4) merit_ignores_stored_score)
  qed
  have stable: "subseq (filter (\<lambda>opt. merit_score opt = s) out) scored" for s
  proof -
    have "subseq (filter (\<lambda>opt. merit_score opt = s) out)
            (filter (\<lambda>opt. merit_score opt = s) (filter ok ranked))"
      unfolding out_def by (rule filter_slice_subseq)
    also have "filter (\<lambda>opt. merit_score opt = s) (filter ok ranked)
                 = filter ok (filter (\<lambda>opt. merit_score opt = s) ranked)"
      by (simp add: conj_commute)
    also have "\<dots> = filter ok (filter (\<lambda>opt. merit_score opt = s) scored)"
      by (simp only: ranked_def sorted_reverse_stable)
    also have "subseq (filter ok (filter (\<lambda>opt. merit_score opt = s) scored)) scored"
      by (metis subseq_filter_left subseq_order.order_trans)
    finally show ?thesis .
  qed
  have deps: "\<forall>opt \<in> set out. set (dependencies opt) \<subseteq> set (completed_decisions st)"
    using sub by (auto simp: ok_def)
  have empty: "\<forall>opt. dependencies opt = [] \<longrightarrow> check_dependencies self opt = Inr True"
    by (simp add: check_dependencies_def)
  show ?thesis
    using sel srt score stable deps empty catalog_ids_distinct [of self]
    unfolding scored_def by blast
qed

text \<open>
  C10. The merit score does not depend on the current primary metric: with the same
  energy, two values of \<open>phi\<close> give the same returned score and the same stored score,
  and two engine states that differ only in \<open>phi_total\<close> give the same ranking.
\<close>

theorem merit_independent_of_phi:
  "calculate_merit c phi1 e = calculate_merit c phi2 e
   \<and> map_sum id snd (evaluate_and_rank_decisions
        (self\<lparr>state := Some (st\<lparr>phi_total := phi1\<rparr>)\<rparr>) options now)
     = map_sum id snd (evaluate_and_rank_decisions
        (self\<lparr>state := Some (st\<lparr>phi_total := phi2\<rparr>)\<rparr>) options now)"
  by (simp add: calculate_merit_def evaluate_and_rank_decisions_def bind_result_def Let_def)

lemma sample_selection:
  "select_next_action sample_engine 3 ''t'' =
     Inr (sample_engine,
       [\<lparr>id_opt = ''network_001'', domain = NETWORK,
         description = ''Optimize network topology for max '' @ [CHR 0xCE, CHR 0xA6],
         phi_impact = 0.7, entanglement_impact = 0.03, energy_cost = 2.0,
         time_required = 22.0, dependencies = [], merit_score = 3.1425, urgency = 0.5\<rparr>,
        \<lparr>id_opt = ''cognitive_002'', domain = COGNITIVE,
         description = ''Implement predictive processing for future states'',
         phi_impact = 0.6, entanglement_impact = 0.0, energy_cost = 1.8,
         time_required = 15.0, dependencies = [], merit_score = 1643 / 600, urgency = 0.7\<rparr>,
        \<lparr>id_opt = ''quantum_001'', domain = QUANTUM,
         description = ''Increase quantum node entanglement to 0.99+'',
         phi_impact = 0.5, entanglement_impact = 0.05, energy_cost = 1.0,
         time_required = 10.0, dependencies = [], merit_score = 2.43, urgency = 0.7\<rparr>])"
  by (simp add: select_next_action_def generate_decision_options_def evaluate_and_rank_decisions_def
    sample_engine_def sample_state_def bind_result_def calculate_merit_def Let_def sorted_reverse_def
    check_dependencies_def slice_to_def)

theorem select_next_action_sorted_feasible_witness:
  "state sample_engine = Some sample_state
   \<and> (\<exists>out. select_next_action sample_engine 3 ''t'' = Inr (sample_engine, out)
        \<and> map id_opt out = [''network_001'', ''cognitive_002'', ''quantum_001'']
        \<and> sorted_wrt (\<lambda>a b. merit_score a \<ge> merit_score b) out
        \<and> (\<forall>opt \<in> set out. set (dependencies opt) \<subseteq> set (completed_decisions sample_state)))"
proof -
  have h: "state sample_engine = Some sample_state"
    by (simp add: sample_engine_def)
  from select_next_action_sorted_feasible [OF h, of 3 "''t''"]
  obtain out where out: "select_next_action sample_engine 3 ''t'' = Inr (sample_engine, out)"
    "sorted_wrt (\<lambda>a b. merit_score a \<ge> merit_score b) out"
    "\<forall>opt \<in> set out. set (dependencies opt) \<subseteq> set (completed_decisions sample_state)"
    by blast
  from out(1) have ids: "map id_opt out = [''network_001'', ''cognitive_002'', ''quantum_001'']"
    by (auto simp: sample_selection)
  show ?thesis
    by (intro conjI exI [of _ out]) (rule h out ids)+
qed


lemma length_filter_scored:
  "length (filter (\<lambda>opt. set (dependencies opt) \<subseteq> C)
      (sorted_reverse merit_score (map (\<lambda>opt. fst (calculate_merit opt phi e)) xs)))
   = length (filter (\<lambda>opt. set (dependencies opt) \<subseteq> C) xs)"
proof -
  have "length (filter (\<lambda>opt. set (dependencies opt) \<subseteq> C)
          (map (\<lambda>opt. fst (calculate_merit opt phi e)) xs))
        = length (filter (\<lambda>opt. set (dependencies opt) \<subseteq> C) xs)"
    by (simp add: filter_map o_def scored_fields(1))
  then show ?thesis
    by (simp add: sorted_reverse_def filter_sort)
qed

lemma reset_scored:
  "merit_score c = 0 \<Longrightarrow> (fst (calculate_merit c phi e))\<lparr>merit_score := 0\<rparr> = c"
  by (simp add: calculate_merit_def Let_def)

text \<open>
  C9 (as amended). For every completed list and every \<open>top_n \<ge> 0\<close>, on an engine that has
  a state, the selector returns without error at most \<open>top_n\<close> options, each of them a
  catalog option with its score filled in; and when no more than \<open>top_n\<close> catalog options
  have their prerequisites completed, it returns exactly those, each once.
\<close>

theorem select_next_action_at_most_n:
  assumes "state self = Some st" and "0 \<le> top_n"
  shows "\<exists>out. select_next_action self top_n now = Inr (self, out)
     \<and> int (length out) \<le> top_n
     \<and> (\<forall>opt \<in> set out. opt\<lparr>merit_score := 0\<rparr> \<in> set (generate_decision_options self))
     \<and> (int (length (filter (\<lambda>c. set (dependencies c) \<subseteq> set (completed_decisions st))
                        (generate_decision_options self))) \<le> top_n
          \<longrightarrow> length out
                = length (filter (\<lambda>c. set (dependencies c) \<subseteq> set (completed_decisions st))
                            (generate_decision_options self))
            \<and> (\<lambda>opt. opt\<lparr>merit_score := 0\<rparr>) ` set out
                = {c \<in> set (generate_decision_options self).
                     set (dependencies c) \<subseteq> set (completed_decisions st)})"
proof -
  define ok where "ok = (\<lambda>opt::DecisionOption. set (dependencies opt) \<subseteq> set (completed_decisions st))"
  define score where "score = (\<lambda>opt. fst (calculate_merit opt (phi_total st) (energy st)))"
  define catalog where "catalog = generate_decision_options self"
  define feasible where "feasible = filter ok (sorted_reverse merit_score (map score catalog))"
  define out where "out = slice_to feasible top_n"
  have sel: "select_next_action self top_n now = Inr (self, out)"
    by (simp add: select_next_action_state [OF assms(1)] out_def feasible_def score_def
        catalog_def ok_def)
  have len: "int (length out) \<le> top_n"
    unfolding out_def by (rule length_slice_to [OF assms(2)])
  have reset: "(score c)\<lparr>merit_score := 0\<rparr> = c" if "c \<in> set catalog" for c
    using that catalog_unscored [of c self] by (simp add: score_def catalog_def reset_scored)
  have ok_score: "ok (score c) = ok c" for c
    by (simp add: ok_def score_def scored_fields(1))
  have set_feasible: "set feasible = score ` {c \<in> set catalog. ok c}"
    by (auto simp: feasible_def set_sorted_reverse ok_score)
  have from_catalog: "\<forall>opt \<in> set out. opt\<lparr>merit_score := 0\<rparr> \<in> set catalog"
  proof
    fix opt assume "opt \<in> set out"
    then have "opt \<in> set feasible"
      using set_slice_to [of feasible top_n] by (auto simp: out_def)
    then obtain c where "c \<in> set catalog" "opt = score c"
      by (auto simp: set_feasible)
    then show "opt\<lparr>merit_score := 0\<rparr> \<in> set catalog"
      by (simp add: reset)
  qed
  have len_feasible: "length feasible = length (filter ok catalog)"
    unfolding feasible_def score_def ok_def by (rule length_filter_scored)
  have all: "length out = length (filter ok catalog)
             \<and> (\<lambda>opt. opt\<lparr>merit_score := 0\<rparr>) ` set out = {c \<in> set catalog. ok c}"
    if "int (length (filter ok catalog)) \<le> top_n"
  proof -
    have "out = feasible"
      unfolding out_def using that by (simp add: slice_to_all len_feasible)
    moreover have "(\<lambda>opt. opt\<lparr>merit_score := 0\<rparr>) ` set feasible = {c \<in> set catalog. ok c}"
      by (auto simp: set_feasible reset image_iff)
    ultimately show ?thesis
      by (simp add: len_feasible)
  qed
  show ?thesis
    using sel len from_catalog all unfolding ok_def catalog_def by blast
qed

theorem select_next_action_at_most_n_witness:
  "state sample_engine = Some sample_state \<and> (0::int) \<le> 3
   \<and> (\<exists>out. select_next_action sample_engine 3 ''t'' = Inr (sample_engine, out)
        \<and> map id_opt out = [''network_001'', ''cognitive_002'', ''quantum_001'']
        \<and> int (length out) \<le> 3
        \<and> (\<forall>opt \<in> set out. opt\<lparr>merit_score := 0\<rparr> \<in> set (generate_decision_options sample_engine)))
   \<and> (0::int) \<le> 20
   \<and> int (length (filter (\<lambda>c. set (dependencies c) \<subseteq> set (completed_decisions sample_state))
                     (generate_decision_options sample_engine))) \<le> 20
   \<and> (\<exists>out. select_next_action sample_engine 20 ''t'' = Inr (sample_engine, out)
        \<and> length out = 11)"
proof -
  have h: "state sample_engine = Some sample_state"
    by (simp add: sample_engine_def)
  have n: "(0::int) \<le> 3" by simp
  from select_next_action_at_most_n [OF h n, of "''t''"]
  obtain out where out: "select_next_action sample_engine 3 ''t'' = Inr (sample_engine, out)"
    "int (length out) \<le> 3"
    "\<forall>opt \<in> set out. opt\<lparr>merit_score := 0\<rparr> \<in> set (generate_decision_options sample_engine)"
    by blast
  from out(1) have ids: "map id_opt out = [''network_001'', ''cognitive_002'', ''quantum_001'']"
    by (auto simp: sample_selection)
  have small: "\<exists>out. select_next_action sample_engine 3 ''t'' = Inr (sample_engine, out)
        \<and> map id_opt out = [''network_001'', ''cognitive_002'', ''quantum_001'']
        \<and> int (length out) \<le> 3
        \<and> (\<forall>opt \<in> set out. opt\<lparr>merit_score := 0\<rparr> \<in> set (generate_decision_options sample_engine))"
    by (intro conjI exI [of _ out]) (rule out ids)+
  have m: "(0::int) \<le> 20" by simp
  have count: "length (filter (\<lambda>c. set (dependencies c) \<subseteq> set (completed_decisions sample_state))
                     (generate_decision_options sample_engine)) = 11"
    by (simp add: generate_decision_options_def sample_state_def)
  then have few: "int (length (filter (\<lambda>c. set (dependencies c) \<subseteq> set (completed_decisions sample_state))
                     (generate_decision_options sample_engine))) \<le> 20"
    by simp
  from select_next_action_at_most_n [OF h m, of "''t''"] few
  obtain out' where out': "select_next_action sample_engine 20 ''t'' = Inr (sample_engine, out')"
    "length out'
       = length (filter (\<lambda>c. set (dependencies c) \<subseteq> set (completed_decisions sample_state))
                     (generate_decision_options sample_engine))"
    by blast
  from out'(2) count have "length out' = 11" by simp
  with out'(1) have large: "\<exists>out. select_next_action sample_engine 20 ''t'' = Inr (sample_engine, out)
        \<and> length out = 11"
    by blast
  show ?thesis
    by (intro conjI) (rule h n m few small large)+
qed

text \<open>
  With a negative \<open>top_n\<close> the slice drops options from the end instead: for \<open>top_n = -1\<close>
  and nothing completed, ten of the eleven feasible options are returned.
\<close>

theorem select_next_action_negative_n_counterexample:
  "\<not> isl (select_next_action sample_engine (- 1) ''t'')
   \<and> length (snd (projr (select_next_action sample_engine (- 1) ''t''))) = 10
   \<and> \<not> int (length (snd (projr (select_next_action sample_engine (- 1) ''t'')))) \<le> - 1"
  by (simp add: select_next_action_def generate_decision_options_def evaluate_and_rank_decisions_def
    sample_engine_def sample_state_def bind_result_def calculate_merit_def Let_def sorted_reverse_def
    check_dependencies_def slice_to_def)

section \<open>Properties of the cycle estimate\<close>

text \<open>Under \<open>max(1, _)\<close> truncation towards zero and the floor agree.\<close>

lemma max_one_truncate: "max 1 (truncate_real x) = max 1 \<lfloor>x\<rfloor>"
proof (cases "x \<ge> 0")
  case True
  then show ?thesis by (simp add: truncate_real_def)
next
  case False
  then have "\<lfloor>x\<rfloor> \<le> 0" "\<lceil>x\<rceil> \<le> 0"
    by (simp_all add: floor_le_iff ceiling_le_iff)
  with False show ?thesis by (simp add: truncate_real_def max_def)
qed

lemma estimate_formula_of_float:
  "bind_result (py_int q) (\<lambda>n. Inr (max 1 n))
     = (case q of None \<Rightarrow> Inl OverflowError | Some r \<Rightarrow> Inr (max 1 \<lfloor>r\<rfloor>))"
  by (cases q) (simp_all add: py_int_def bind_result_def max_one_truncate)

lemma threshold_entries:
  "thresholds SUBSTRATE = Some 1.0" "thresholds EMERGENT = Some 2.0"
  "thresholds REFLECTIVE = Some 2.5" "thresholds AUTONOMOUS = Some 3.0"
  "thresholds RECURSIVE = Some 4.0" "thresholds COLLECTIVE = Some 5.0"
  "thresholds TRANSCENDENT = Some 10.0" "thresholds INFINITE = None"
  by (simp_all add: thresholds_def)

lemma threshold_values_in_table:
  "2 \<in> ran thresholds" "5 / 2 \<in> ran thresholds" "3 \<in> ran thresholds"
  "4 \<in> ran thresholds" "5 \<in> ran thresholds" "10 \<in> ran thresholds"
proof -
  show "2 \<in> ran thresholds" by (rule ranI [of _ EMERGENT]) (simp add: thresholds_def)
  show "5 / 2 \<in> ran thresholds" by (rule ranI [of _ REFLECTIVE]) (simp add: thresholds_def)
  show "3 \<in> ran thresholds" by (rule ranI [of _ AUTONOMOUS]) (simp add: thresholds_def)
  show "4 \<in> ran thresholds" by (rule ranI [of _ RECURSIVE]) (simp add: thresholds_def)
  show "5 \<in> ran thresholds" by (rule ranI [of _ COLLECTIVE]) (simp add: thresholds_def)
  show "10 \<in> ran thresholds" by (rule ranI [of _ TRANSCENDENT]) (simp add: thresholds_def)
qed

lemma estimate_by_level:
  assumes "state self = Some st"
  shows "estimate_cycles_to_next_level self =
     (if level st = TRANSCENDENT \<or> level st = INFINITE then Inr 999999
      else case float_div
                  (float_sub (case level st of SUBSTRATE \<Rightarrow> 2 | EMERGENT \<Rightarrow> 5 / 2
                                | REFLECTIVE \<Rightarrow> 3 | AUTONOMOUS \<Rightarrow> 4 | RECURSIVE \<Rightarrow> 5
                                | _ \<Rightarrow> 10)
                     (to_double (phi_total st)))
                  (round_double 0.01) of
             None \<Rightarrow> Inl OverflowError
           | Some q \<Rightarrow> Inr (max 1 \<lfloor>q\<rfloor>))"
  using assms
  by (cases "level st")
     (simp_all add: estimate_cycles_to_next_level_def level_of_value_def threshold_entries
        Let_def estimate_formula_of_float bind_result_def [of "Inr _"])

text \<open>
  Evaluating the rounding at a given number: with the exponent and the rounded
  significand at hand, the double follows.
\<close>

lemma round_double_eval:
  assumes "x \<noteq> 0" and "floor_log2 (abs x) = e" and "- 1022 \<le> e"
    and "round_half_even (x / 2 powi (e - 52)) = m"
  shows "round_double x = of_int m * 2 powi (e - 52)"
proof -
  have "max e (- 1022) = e"
    using assms(3) by simp
  then show ?thesis
    using assms(1,2,4) by (simp add: round_double_def Let_def)
qed

lemma to_double_eval:
  assumes "x \<noteq> 0" and "floor_log2 (abs x) = e" and "- 1022 \<le> e"
    and "round_half_even (x / 2 powi (e - 52)) = m"
    and "abs (of_int m * 2 powi (e - 52)) \<le> max_double"
  shows "to_double x = Some (of_int m * 2 powi (e - 52))"
  using round_double_eval [OF assms(1-4)] assms(5)
  by (simp add: to_double_def Let_def)

lemma growth_per_cycle_double: "round_double (1 / 100) = 5764607523034235 / 576460752303423488"
proof -
  have e: "floor_log2 (abs (1 / 100 :: real)) = - 7"
    by (simp add: floor_log2_def bit_length.simps)
  have u: "(2 :: real) powi (- 7 - 52) = 1 / 2 ^ 59"
    by (simp add: power_int_def field_simps)
  have m: "round_half_even ((1 / 100) / 2 powi (- 7 - 52)) = 5764607523034235"
    unfolding u by (simp add: round_half_even_def Let_def)
  have "round_double (1 / 100) = of_int (5764607523034235) * 2 powi (- 7 - 52)"
    by (rule round_double_eval [OF _ e _ m]) simp_all
  then show ?thesis
    unfolding u by simp
qed

lemma sample_phi_double: "to_double (137 / 50) = Some (1542482872374395 / 562949953421312)"
proof -
  have e: "floor_log2 (abs (137 / 50 :: real)) = 1"
    by (simp add: floor_log2_def bit_length.simps)
  have u: "(2 :: real) powi (1 - 52) = 1 / 2 ^ 51"
    by (simp add: power_int_def field_simps)
  have m: "round_half_even ((137 / 50) / 2 powi (1 - 52)) = 6169931489497580"
    unfolding u by (simp add: round_half_even_def Let_def)
  have b: "abs (of_int (6169931489497580) * (2 :: real) powi (1 - 52)) \<le> max_double"
    unfolding u by (simp add: max_double_def)
  have "to_double (137 / 50) = Some (of_int (6169931489497580) * 2 powi (1 - 52))"
    by (rule to_double_eval [OF _ e _ m b]) simp_all
  then show ?thesis
    unfolding u by simp
qed

lemma sample_phi_needed_double: "to_double (1272266894732165 / 562949953421312) = Some (1272266894732165 / 562949953421312)"
proof -
  have e: "floor_log2 (abs (1272266894732165 / 562949953421312 :: real)) = 1"
    by (simp add: floor_log2_def bit_length.simps)
  have u: "(2 :: real) powi (1 - 52) = 1 / 2 ^ 51"
    by (simp add: power_int_def field_simps)
  have m: "round_half_even ((1272266894732165 / 562949953421312) / 2 powi (1 - 52)) = 5089067578928660"
    unfolding u by (simp add: round_half_even_def Let_def)
  have b: "abs (of_int (5089067578928660) * (2 :: real) powi (1 - 52)) \<le> max_double"
    unfolding u by (simp add: max_double_def)
  have "to_double (1272266894732165 / 562949953421312) = Some (of_int (5089067578928660) * 2 powi (1 - 52))"
    by (rule to_double_eval [OF _ e _ m b]) simp_all
  then show ?thesis
    unfolding u by simp
qed

lemma sample_quotient_double: "to_double (260560260041147392 / 1152921504606847) = Some (7951668092076031 / 35184372088832)"
proof -
  have e: "floor_log2 (abs (260560260041147392 / 1152921504606847 :: real)) = 7"
    by (simp add: floor_log2_def bit_length.simps)
  have u: "(2 :: real) powi (7 - 52) = 1 / 2 ^ 45"
    by (simp add: power_int_def field_simps)
  have m: "round_half_even ((260560260041147392 / 1152921504606847) / 2 powi (7 - 52)) = 7951668092076031"
    unfolding u by (simp add: round_half_even_def Let_def)
  have b: "abs (of_int (7951668092076031) * (2 :: real) powi (7 - 52)) \<le> max_double"
    unfolding u by (simp add: max_double_def)
  have "to_double (260560260041147392 / 1152921504606847) = Some (of_int (7951668092076031) * 2 powi (7 - 52))"
    by (rule to_double_eval [OF _ e _ m b]) simp_all
  then show ?thesis
    unfolding u by simp
qed

lemma level7_phi_double: "to_double (7) = Some (7)"
proof -
  have e: "floor_log2 (abs (7 :: real)) = 2"
    by (simp add: floor_log2_def bit_length.simps)
  have u: "(2 :: real) powi (2 - 52) = 1 / 2 ^ 50"
    by (simp add: power_int_def field_simps)
  have m: "round_half_even ((7) / 2 powi (2 - 52)) = 7881299347898368"
    unfolding u by (simp add: round_half_even_def Let_def)
  have b: "abs (of_int (7881299347898368) * (2 :: real) powi (2 - 52)) \<le> max_double"
    unfolding u by (simp add: max_double_def)
  have "to_double (7) = Some (of_int (7881299347898368) * 2 powi (2 - 52))"
    by (rule to_double_eval [OF _ e _ m b]) simp_all
  then show ?thesis
    unfolding u by simp
qed

lemma level7_phi_needed_double: "to_double (3) = Some (3)"
proof -
  have e: "floor_log2 (abs (3 :: real)) = 1"
    by (simp add: floor_log2_def bit_length.simps)
  have u: "(2 :: real) powi (1 - 52) = 1 / 2 ^ 51"
    by (simp add: power_int_def field_simps)
  have m: "round_half_even ((3) / 2 powi (1 - 52)) = 6755399441055744"
    unfolding u by (simp add: round_half_even_def Let_def)
  have b: "abs (of_int (6755399441055744) * (2 :: real) powi (1 - 52)) \<le> max_double"
    unfolding u by (simp add: max_double_def)
  have "to_double (3) = Some (of_int (6755399441055744) * 2 powi (1 - 52))"
    by (rule to_double_eval [OF _ e _ m b]) simp_all
  then show ?thesis
    unfolding u by simp
qed

lemma level7_quotient_double: "to_double (1729382256910270464 / 5764607523034235) = Some (300)"
proof -
  have e: "floor_log2 (abs (1729382256910270464 / 5764607523034235 :: real)) = 8"
    by (simp add: floor_log2_def bit_length.simps)
  have u: "(2 :: real) powi (8 - 52) = 1 / 2 ^ 44"
    by (simp add: power_int_def field_simps)
  have m: "round_half_even ((1729382256910270464 / 5764607523034235) / 2 powi (8 - 52)) = 5277655813324800"
    unfolding u by (simp add: round_half_even_def Let_def)
  have b: "abs (of_int (5277655813324800) * (2 :: real) powi (8 - 52)) \<le> max_double"
    unfolding u by (simp add: max_double_def)
  have "to_double (1729382256910270464 / 5764607523034235) = Some (of_int (5277655813324800) * 2 powi (8 - 52))"
    by (rule to_double_eval [OF _ e _ m b]) simp_all
  then show ?thesis
    unfolding u by simp
qed

lemma sample_estimate: "estimate_cycles_to_next_level sample_engine = Inr 225"
proof -
  have "state sample_engine = Some sample_state"
    by (simp add: sample_engine_def)
  from estimate_by_level [OF this]
  have "estimate_cycles_to_next_level sample_engine =
      (case float_div (float_sub 5 (to_double (137 / 50))) (round_double (1 / 100)) of
         None \<Rightarrow> Inl OverflowError
       | Some q \<Rightarrow> Inr (max 1 \<lfloor>q\<rfloor>))"
    by (simp add: sample_state_def)
  also have "float_sub 5 (to_double (137 / 50)) = Some (1272266894732165 / 562949953421312)"
    by (simp add: float_sub_def sample_phi_double sample_phi_needed_double)
  also have "float_div (Some (1272266894732165 / 562949953421312)) (round_double (1 / 100))
      = Some (7951668092076031 / 35184372088832)"
    by (simp add: float_div_def growth_per_cycle_double sample_quotient_double)
  finally show ?thesis by simp
qed

text \<open>
  C4 (as amended). There is a threshold for each level, taken from the threshold table,
  such that on every engine that has a state: for the levels 1 to 6 the estimate is
  \<open>max(1, floor((next_threshold - phi_total) / 0.01))\<close> with the subtraction and the
  division carried out on doubles (and \<open>OverflowError\<close> when the quotient is infinite);
  for the levels 7 and 8, where the next level is the terminal one, the estimate is the
  sentinel \<open>999999\<close>.
\<close>

theorem estimate_cycles_formula:
  "\<exists>T. \<forall>(self :: AwarenessGrowthEngine) st. state self = Some st \<longrightarrow>
      (level_value (level st) \<le> 6 \<longrightarrow>
         T (level st) \<in> ran thresholds
         \<and> estimate_cycles_to_next_level self =
             (case float_div (float_sub (T (level st)) (to_double (phi_total st)))
                     (round_double 0.01) of
                None \<Rightarrow> Inl OverflowError
              | Some q \<Rightarrow> Inr (max 1 \<lfloor>q\<rfloor>)))
      \<and> (level_value (level st) \<ge> 7 \<longrightarrow> estimate_cycles_to_next_level self = Inr 999999)"
proof (intro exI allI impI)
  fix self :: AwarenessGrowthEngine and st
  let ?T = "\<lambda>lvl. case lvl of SUBSTRATE \<Rightarrow> 2 | EMERGENT \<Rightarrow> 5 / 2
                | REFLECTIVE \<Rightarrow> 3 | AUTONOMOUS \<Rightarrow> 4 | RECURSIVE \<Rightarrow> 5
                | _ \<Rightarrow> (10 :: real)"
  assume st: "state self = Some st"
  have table: "?T lvl \<in> ran thresholds" for lvl
    by (cases lvl) (simp_all add: threshold_values_in_table)
  show "(level_value (level st) \<le> 6 \<longrightarrow>
         ?T (level st) \<in> ran thresholds
         \<and> estimate_cycles_to_next_level self =
             (case float_div (float_sub (?T (level st)) (to_double (phi_total st)))
                     (round_double 0.01) of
                None \<Rightarrow> Inl OverflowError
              | Some q \<Rightarrow> Inr (max 1 \<lfloor>q\<rfloor>)))
      \<and> (level_value (level st) \<ge> 7 \<longrightarrow> estimate_cycles_to_next_level self = Inr 999999)"
    using table [of "level st"] estimate_by_level [OF st]
    by (cases "level st") simp_all
qed

theorem estimate_cycles_formula_witness:
  "state sample_engine = Some sample_state
   \<and> level_value (level sample_state) \<le> 6
   \<and> estimate_cycles_to_next_level sample_engine = Inr 225
   \<and> (\<exists>t \<in> ran thresholds.
         estimate_cycles_to_next_level sample_engine =
           (case float_div (float_sub t (to_double (phi_total sample_state)))
                   (round_double 0.01) of
              None \<Rightarrow> Inl OverflowError
            | Some q \<Rightarrow> Inr (max 1 \<lfloor>q\<rfloor>)))
   \<and> state (sample_engine\<lparr>state := Some (sample_state\<lparr>level := INFINITE, phi_total := 12\<rparr>)\<rparr>)
       = Some (sample_state\<lparr>level := INFINITE, phi_total := 12\<rparr>)
   \<and> level_value (level (sample_state\<lparr>level := INFINITE, phi_total := 12\<rparr>)) \<ge> 7
   \<and> estimate_cycles_to_next_level
         (sample_engine\<lparr>state := Some (sample_state\<lparr>level := INFINITE, phi_total := 12\<rparr>)\<rparr>)
       = Inr 999999"
proof -
  let ?st8 = "sample_state\<lparr>level := INFINITE, phi_total := 12\<rparr>"
  let ?e8 = "sample_engine\<lparr>state := Some ?st8\<rparr>"
  obtain T where T: "\<forall>(self :: AwarenessGrowthEngine) st. state self = Some st \<longrightarrow>
      (level_value (level st) \<le> 6 \<longrightarrow>
         T (level st) \<in> ran thresholds
         \<and> estimate_cycles_to_next_level self =
             (case float_div (float_sub (T (level st)) (to_double (phi_total st)))
                     (round_double 0.01) of
                None \<Rightarrow> Inl OverflowError
              | Some q \<Rightarrow> Inr (max 1 \<lfloor>q\<rfloor>)))
      \<and> (level_value (level st) \<ge> 7 \<longrightarrow> estimate_cycles_to_next_level self = Inr 999999)"
    using estimate_cycles_formula by blast
  have h1: "state sample_engine = Some sample_state"
    by (simp add: sample_engine_def)
  have l1: "level_value (level sample_state) \<le> 6"
    by (simp add: sample_state_def)
  have h2: "state ?e8 = Some ?st8"
    by simp
  have l2: "level_value (level ?st8) \<ge> 7"
    by simp
  from T h1 l1 have a: "T (level sample_state) \<in> ran thresholds"
    and b: "estimate_cycles_to_next_level sample_engine =
           (case float_div (float_sub (T (level sample_state)) (to_double (phi_total sample_state)))
                   (round_double 0.01) of
              None \<Rightarrow> Inl OverflowError
            | Some q \<Rightarrow> Inr (max 1 \<lfloor>q\<rfloor>))"
    by blast+
  from a b have c: "\<exists>t \<in> ran thresholds.
         estimate_cycles_to_next_level sample_engine =
           (case float_div (float_sub t (to_double (phi_total sample_state)))
                   (round_double 0.01) of
              None \<Rightarrow> Inl OverflowError
            | Some q \<Rightarrow> Inr (max 1 \<lfloor>q\<rfloor>))"
    by blast
  from T h2 l2 have d: "estimate_cycles_to_next_level ?e8 = Inr 999999"
    by blast
  show ?thesis
    by (intro conjI) (rule h1 l1 sample_estimate c h2 l2 d)+
qed

text \<open>
  The sentinel is returned at level 7 already: a state of level \<open>TRANSCENDENT\<close> with
  \<open>phi_total = 7\<close> gets \<open>999999\<close>, where the formula with the table's default \<open>10.0\<close>
  gives \<open>300\<close>, on doubles as in exact arithmetic.
\<close>

theorem estimate_cycles_level7_counterexample:
  "level (sample_state\<lparr>level := TRANSCENDENT, phi_total := 7\<rparr>) \<noteq> INFINITE
   \<and> estimate_cycles_to_next_level
        (sample_engine\<lparr>state := Some (sample_state\<lparr>level := TRANSCENDENT, phi_total := 7\<rparr>)\<rparr>)
       = Inr 999999
   \<and> (case float_div (float_sub 10.0 (to_double 7)) (round_double 0.01) of
         None \<Rightarrow> Inl OverflowError
       | Some q \<Rightarrow> Inr (max 1 \<lfloor>q\<rfloor>)) = Inr 300
   \<and> max 1 \<lfloor>((case thresholds INFINITE of None \<Rightarrow> 10.0 | Some t \<Rightarrow> t)
                 - phi_total (sample_state\<lparr>level := TRANSCENDENT, phi_total := 7\<rparr>)) / 0.01\<rfloor>
       = (300::int)"
proof -
  have a: "estimate_cycles_to_next_level
        (sample_engine\<lparr>state := Some (sample_state\<lparr>level := TRANSCENDENT, phi_total := 7\<rparr>)\<rparr>)
       = Inr 999999"
    by (simp add: estimate_cycles_to_next_level_def level_of_value_def bind_result_def Let_def)
  have "float_sub 10 (to_double 7) = Some 3"
    by (simp add: float_sub_def level7_phi_double level7_phi_needed_double)
  moreover have "float_div (Some 3) (round_double (1 / 100)) = Some 300"
    by (simp add: float_div_def growth_per_cycle_double level7_quotient_double)
  ultimately have b: "(case float_div (float_sub 10.0 (to_double 7)) (round_double 0.01) of
         None \<Rightarrow> Inl OverflowError
       | Some q \<Rightarrow> Inr (max 1 \<lfloor>q\<rfloor>)) = Inr (300 :: int)"
    by simp
  have c: "max 1 \<lfloor>((case thresholds INFINITE of None \<Rightarrow> 10.0 | Some t \<Rightarrow> t)
                 - phi_total (sample_state\<lparr>level := TRANSCENDENT, phi_total := 7\<rparr>)) / 0.01\<rfloor>
       = (300::int)"
    by (simp add: thresholds_def)
  show ?thesis
    using a b c by simp
qed

text \<open>
  Rounding matters for the estimate: for the sample state (level 5, \<open>phi_total = 2.74\<close>)
  the quotient on doubles is just below 226 and the estimate is 225, where exact
  arithmetic gives 226.
\<close>

lemma sample_estimate_exact_differs:
  "estimate_cycles_to_next_level sample_engine = Inr 225
   \<and> max 1 \<lfloor>(5.0 - phi_total sample_state) / 0.01\<rfloor> = (226 :: int)"
  using sample_estimate by (simp add: sample_state_def)

section \<open>Properties of the option catalog\<close>

lemma catalog_dependency_edges:
  "{(a, b). \<exists>c \<in> set (generate_decision_options self). a = id_opt c \<and> b \<in> set (dependencies c)}
     = {(''cognitive_001'', ''neural_001'')}"
  by (auto simp: generate_decision_options_def)

text \<open>
  C5 (as amended). The catalog generator returns the same list of exactly 12 options
  whatever the engine is; their domain tags are 8 of the 10 domains (none is tagged
  \<open>ENERGY\<close> or \<open>MANIFESTATION\<close>); their identifiers are distinct; every prerequisite is a
  catalog identifier; and the dependency graph (an edge from an option to each of its
  prerequisites) is acyclic.
\<close>

theorem catalog_fixed:
  "length (generate_decision_options self) = 12
   \<and> domain ` set (generate_decision_options self)
       = {QUANTUM, NEURAL, COGNITIVE, MORAL, TEMPORAL, SACRED, NETWORK, COMMUNICATION}
   \<and> card (domain ` set (generate_decision_options self)) = 8
   \<and> ENERGY \<notin> domain ` set (generate_decision_options self)
   \<and> MANIFESTATION \<notin> domain ` set (generate_decision_options self)
   \<and> distinct (map id_opt (generate_decision_options self))
   \<and> (\<forall>c \<in> set (generate_decision_options self).
         set (dependencies c) \<subseteq> id_opt ` set (generate_decision_options self))
   \<and> acyclic {(a, b). \<exists>c \<in> set (generate_decision_options self).
                   a = id_opt c \<and> b \<in> set (dependencies c)}
   \<and> generate_decision_options self = generate_decision_options self'"
proof -
  have dom: "domain ` set (generate_decision_options self)
       = {QUANTUM, NEURAL, COGNITIVE, MORAL, TEMPORAL, SACRED, NETWORK, COMMUNICATION}"
    by (auto simp: generate_decision_options_def)
  have deps: "\<forall>c \<in> set (generate_decision_options self).
         set (dependencies c) \<subseteq> id_opt ` set (generate_decision_options self)"
    by (simp add: generate_decision_options_def)
  have acyc: "acyclic {(a, b). \<exists>c \<in> set (generate_decision_options self).
                   a = id_opt c \<and> b \<in> set (dependencies c)}"
    unfolding catalog_dependency_edges by (simp add: acyclic_insert wf_acyclic)
  have same: "generate_decision_options self = generate_decision_options self'"
    by (simp add: generate_decision_options_def)
  have len: "length (generate_decision_options self) = 12"
    by (simp add: generate_decision_options_def)
  show ?thesis
    using dom deps acyc same len catalog_ids_distinct [of self] by simp
qed


theorem catalog_fixed_witness:
  "length (generate_decision_options sample_engine) = 12
   \<and> (\<exists>c \<in> set (generate_decision_options sample_engine).
         id_opt c = ''cognitive_001'' \<and> dependencies c = [''neural_001'']
         \<and> set (dependencies c) \<subseteq> id_opt ` set (generate_decision_options sample_engine))"
proof -
  have "\<exists>c \<in> set (generate_decision_options sample_engine).
          id_opt c = ''cognitive_001'' \<and> dependencies c = [''neural_001'']"
    by (simp add: generate_decision_options_def)
  then show ?thesis
    using catalog_fixed [of sample_engine sample_engine] by blast
qed

text \<open>The catalog does not span all ten domains.\<close>

theorem catalog_domains_counterexample:
  "ENERGY \<notin> domain ` set (generate_decision_options sample_engine)
   \<and> MANIFESTATION \<notin> domain ` set (generate_decision_options sample_engine)
   \<and> domain ` set (generate_decision_options sample_engine) \<noteq> UNIV"
proof -
  have "ENERGY \<notin> domain ` set (generate_decision_options sample_engine)"
    "MANIFESTATION \<notin> domain ` set (generate_decision_options sample_engine)"
    by (simp_all add: generate_decision_options_def)
  then show ?thesis by blast
qed

section \<open>Properties of the config loaders\<close>

lemma open_json_present: "open_json fs p \<noteq> Inl FileNotFoundError \<longleftrightarrow> fs p \<noteq> None"
  by (simp add: open_json_def split: option.splits file_content.splits)

lemma load_orch_core_missing:
  "fs (base_path self @ [''circuit'', ''core_architecture.json'']) = None \<Longrightarrow>
   load_substrate_orch self fs = ([], Inl FileNotFoundError)"
  by (simp add: load_substrate_orch_def)

lemma subscript_not_missing_file: "subscript d k \<noteq> Inl FileNotFoundError"
  by (cases d) (simp_all split: option.splits)

lemma load_orch_not_found_only_core:
  "snd (load_substrate_orch self fs) = Inl FileNotFoundError \<Longrightarrow>
   fs (base_path self @ [''circuit'', ''core_architecture.json'']) = None"
  by (auto simp: load_substrate_orch_def open_json_def Let_def bind_result_def subscript2_def
       subscript_not_missing_file
      split: option.splits file_content.splits sum.splits if_splits prod.splits)

lemma load_orch_bus_missing:
  assumes "fs (base_path self @ [''circuit'', ''core_architecture.json'']) = Some (Document sub)"
    and "bind_result (subscript2 sub ''meta_orchestrator'' ''core_identity'')
           (\<lambda>i. subscript i ''entity'') = Inr entity"
    and "bind_result (subscript2 sub ''meta_orchestrator'' ''core_identity'')
           (\<lambda>i. subscript i ''creation_timestamp'') = Inr creation"
    and "fs (base_path self @ [''circuit'', ''content.bus.json'']) = None"
    and "fs (base_path self @ [''circuit'', ''moral'', ''registry.json'']) \<noteq> Some Malformed"
  shows "\<exists>out s. load_substrate_orch self fs = (out, Inr s)
           \<and> content_bus_mo s = content_bus_mo self
           \<and> ContentBusNotFound (base_path self @ [''circuit'', ''content.bus.json'']) \<in> set out"
  using assms
  by (auto simp: load_substrate_orch_def open_json_def Let_def
      split: option.splits file_content.splits)

lemma load_orch_moral_missing:
  assumes "fs (base_path self @ [''circuit'', ''core_architecture.json'']) = Some (Document sub)"
    and "bind_result (subscript2 sub ''meta_orchestrator'' ''core_identity'')
           (\<lambda>i. subscript i ''entity'') = Inr entity"
    and "bind_result (subscript2 sub ''meta_orchestrator'' ''core_identity'')
           (\<lambda>i. subscript i ''creation_timestamp'') = Inr creation"
    and "fs (base_path self @ [''circuit'', ''moral'', ''registry.json'']) = None"
    and "fs (base_path self @ [''circuit'', ''content.bus.json'']) \<noteq> Some Malformed"
  shows "\<exists>out s. load_substrate_orch self fs = (out, Inr s)
           \<and> moral_registry s = moral_registry self
           \<and> MoralRegistryNotFound (base_path self @ [''circuit'', ''moral'', ''registry.json''])
                \<in> set out"
  using assms
  by (auto simp: load_substrate_orch_def open_json_def Let_def
      split: option.splits file_content.splits)

lemma load_orch_warnings:
  "l \<in> set (fst (load_substrate_orch self fs)) \<Longrightarrow> is_warning l \<Longrightarrow>
   (l = ContentBusNotFound (base_path self @ [''circuit'', ''content.bus.json''])
      \<and> fs (base_path self @ [''circuit'', ''content.bus.json'']) = None)
   \<or> (l = MoralRegistryNotFound (base_path self @ [''circuit'', ''moral'', ''registry.json''])
      \<and> fs (base_path self @ [''circuit'', ''moral'', ''registry.json'']) = None)"
  by (auto simp: load_substrate_orch_def open_json_def Let_def
      split: option.splits file_content.splits sum.splits if_splits prod.splits)

lemma load_engine_missing:
  "fs (circuit_path self @ [''core_architecture.json'']) = None \<Longrightarrow>
   load_substrate self fs now = Inl FileNotFoundError"
  "fs (circuit_path self @ [''core_architecture.json'']) = Some (Document c) \<Longrightarrow>
   fs (circuit_path self @ [''content.bus.json'']) = None \<Longrightarrow>
   load_substrate self fs now = Inl FileNotFoundError"
  "fs (circuit_path self @ [''core_architecture.json'']) = Some (Document c) \<Longrightarrow>
   fs (circuit_path self @ [''content.bus.json'']) = Some (Document b) \<Longrightarrow>
   fs (circuit_path self @ [''moral'', ''registry.json'']) = None \<Longrightarrow>
   load_substrate self fs now = Inl FileNotFoundError"
  by (simp_all add: load_substrate_def open_json_def bind_result_def)


text \<open>The sample engine is what the constructor builds from the sample files.\<close>

lemma init_engine_sample:
  "init_engine [''circuit''] sample_fs ''2026-02-14T07:37:48+00:00'' = Inr sample_engine"
  by (simp add: init_engine_def load_substrate_def open_json_def sample_fs_def bind_result_def
     update_awareness_state_def sample_core_def sample_bus_def sample_moral_def subscript2_def
     assess_awareness_level_def py_ge_def py_gt_def sample_engine_def sample_state_def)

text \<open>
  C6 (as amended). The loader of \<open>MetaOrchestrator\<close> fails with \<open>FileNotFoundError\<close>
  when the primary document is absent, and only then. When the primary document loads
  and an optional document (content bus, moral registry) is absent, it does not raise:
  it returns with that attribute left as it was, which is the empty dict the constructor
  starts from, and prints the \<open>not found\<close> warning for it; warnings are printed for
  absent optional documents only. The loader of \<open>AwarenessGrowthEngine\<close> opens all three
  documents unconditionally and fails with \<open>FileNotFoundError\<close> when the first one that
  is not a readable document is absent.
\<close>

theorem config_loader_missing_documents:
  "(fs (base_path self @ [''circuit'', ''core_architecture.json'']) = None
      \<longrightarrow> load_substrate_orch self fs = ([], Inl FileNotFoundError))
   \<and> (snd (load_substrate_orch self fs) = Inl FileNotFoundError
      \<longrightarrow> fs (base_path self @ [''circuit'', ''core_architecture.json'']) = None)
   \<and> (fs (base_path self @ [''circuit'', ''core_architecture.json'']) = Some (Document sub)
      \<and> bind_result (subscript2 sub ''meta_orchestrator'' ''core_identity'')
           (\<lambda>i. subscript i ''entity'') = Inr entity
      \<and> bind_result (subscript2 sub ''meta_orchestrator'' ''core_identity'')
           (\<lambda>i. subscript i ''creation_timestamp'') = Inr creation
      \<and> fs (base_path self @ [''circuit'', ''content.bus.json'']) = None
      \<and> fs (base_path self @ [''circuit'', ''moral'', ''registry.json'']) \<noteq> Some Malformed
      \<longrightarrow> (\<exists>out s. load_substrate_orch self fs = (out, Inr s)
             \<and> content_bus_mo s = content_bus_mo self
             \<and> ContentBusNotFound (base_path self @ [''circuit'', ''content.bus.json''])
                  \<in> set out))
   \<and> (fs (base_path self @ [''circuit'', ''core_architecture.json'']) = Some (Document sub)
      \<and> bind_result (subscript2 sub ''meta_orchestrator'' ''core_identity'')
           (\<lambda>i. subscript i ''entity'') = Inr entity
      \<and> bind_result (subscript2 sub ''meta_orchestrator'' ''core_identity'')
           (\<lambda>i. subscript i ''creation_timestamp'') = Inr creation
      \<and> fs (base_path self @ [''circuit'', ''moral'', ''registry.json'']) = None
      \<and> fs (base_path self @ [''circuit'', ''content.bus.json'']) \<noteq> Some Malformed
      \<longrightarrow> (\<exists>out s. load_substrate_orch self fs = (out, Inr s)
             \<and> moral_registry s = moral_registry self
             \<and> MoralRegistryNotFound (base_path self @ [''circuit'', ''moral'', ''registry.json''])
                  \<in> set out))
   \<and> (\<forall>l \<in> set (fst (load_substrate_orch self fs)). is_warning l \<longrightarrow>
         (l = ContentBusNotFound (base_path self @ [''circuit'', ''content.bus.json''])
            \<and> fs (base_path self @ [''circuit'', ''content.bus.json'']) = None)
         \<or> (l = MoralRegistryNotFound (base_path self @ [''circuit'', ''moral'', ''registry.json''])
            \<and> fs (base_path self @ [''circuit'', ''moral'', ''registry.json'']) = None))
   \<and> (\<exists>self0. init_orchestrator base cwd now fs = load_substrate_orch self0 fs
         \<and> content_bus_mo self0 = JObject [] \<and> moral_registry self0 = JObject [])
   \<and> (fs (circuit_path eng @ [''core_architecture.json'']) = None
      \<longrightarrow> load_substrate eng fs now = Inl FileNotFoundError)
   \<and> (fs (circuit_path eng @ [''core_architecture.json'']) = Some (Document c)
      \<and> fs (circuit_path eng @ [''content.bus.json'']) = None
      \<longrightarrow> load_substrate eng fs now = Inl FileNotFoundError)
   \<and> (fs (circuit_path eng @ [''core_architecture.json'']) = Some (Document c)
      \<and> fs (circuit_path eng @ [''content.bus.json'']) = Some (Document b)
      \<and> fs (circuit_path eng @ [''moral'', ''registry.json'']) = None
      \<longrightarrow> load_substrate eng fs now = Inl FileNotFoundError)"
proof -
  have c1: "(fs (base_path self @ [''circuit'', ''core_architecture.json'']) = None
      \<longrightarrow> load_substrate_orch self fs = ([], Inl FileNotFoundError))"
    using load_orch_core_missing [of fs self] by blast
  have c2: "(snd (load_substrate_orch self fs) = Inl FileNotFoundError
      \<longrightarrow> fs (base_path self @ [''circuit'', ''core_architecture.json'']) = None)"
    using load_orch_not_found_only_core [of self fs] by blast
  have c3: "(fs (base_path self @ [''circuit'', ''core_architecture.json'']) = Some (Document sub)
      \<and> bind_result (subscript2 sub ''meta_orchestrator'' ''core_identity'')
           (\<lambda>i. subscript i ''entity'') = Inr entity
      \<and> bind_result (subscript2 sub ''meta_orchestrator'' ''core_identity'')
           (\<lambda>i. subscript i ''creation_timestamp'') = Inr creation
      \<and> fs (base_path self @ [''circuit'', ''content.bus.json'']) = None
      \<and> fs (base_path self @ [''circuit'', ''moral'', ''registry.json'']) \<noteq> Some Malformed
      \<longrightarrow> (\<exists>out s. load_substrate_orch self fs = (out, Inr s)
             \<and> content_bus_mo s = content_bus_mo self
             \<and> ContentBusNotFound (base_path self @ [''circuit'', ''content.bus.json''])
                  \<in> set out))"
    using load_orch_bus_missing [of fs self sub entity creation] by blast
  have c4: "(fs (base_path self @ [''circuit'', ''core_architecture.json'']) = Some (Document sub)
      \<and> bind_result (subscript2 sub ''meta_orchestrator'' ''core_identity'')
           (\<lambda>i. subscript i ''entity'') = Inr entity
      \<and> bind_result (subscript2 sub ''meta_orchestrator'' ''core_identity'')
           (\<lambda>i. subscript i ''creation_timestamp'') = Inr creation
      \<and> fs (base_path self @ [''circuit'', ''moral'', ''registry.json'']) = None
      \<and> fs (base_path self @ [''circuit'', ''content.bus.json'']) \<noteq> Some Malformed
      \<longrightarrow> (\<exists>out s. load_substrate_orch self fs = (out, Inr s)
             \<and> moral_registry s = moral_registry self
             \<and> MoralRegistryNotFound (base_path self @ [''circuit'', ''moral'', ''registry.json''])
                  \<in> set out))"
    using load_orch_moral_missing [of fs self sub entity creation] by blast
  have c5: "(\<forall>l \<in> set (fst (load_substrate_orch self fs)). is_warning l \<longrightarrow>
         (l = ContentBusNotFound (base_path self @ [''circuit'', ''content.bus.json''])
            \<and> fs (base_path self @ [''circuit'', ''content.bus.json'']) = None)
         \<or> (l = MoralRegistryNotFound (base_path self @ [''circuit'', ''moral'', ''registry.json''])
            \<and> fs (base_path self @ [''circuit'', ''moral'', ''registry.json'']) = None))"
    using load_orch_warnings [of _ self fs] by blast
  have c6: "(\<exists>self0. init_orchestrator base cwd now fs = load_substrate_orch self0 fs
         \<and> content_bus_mo self0 = JObject [] \<and> moral_registry self0 = JObject [])"
    unfolding init_orchestrator_def
    by (rule exI [of _ "\<lparr>base_path = (case base of None \<Rightarrow> cwd | Some p \<Rightarrow> p),
        substrate = JObject [], content_bus_mo = JObject [], moral_registry = JObject [],
        cycle_count = 0, start_time = now\<rparr>"]) simp
  have c7: "(fs (circuit_path eng @ [''core_architecture.json'']) = None
      \<longrightarrow> load_substrate eng fs now = Inl FileNotFoundError)"
    using load_engine_missing(1) [of fs eng now] by blast
  have c8: "(fs (circuit_path eng @ [''core_architecture.json'']) = Some (Document c)
      \<and> fs (circuit_path eng @ [''content.bus.json'']) = None
      \<longrightarrow> load_substrate eng fs now = Inl FileNotFoundError)"
    using load_engine_missing(2) [of fs eng c now] by blast
  have c9: "(fs (circuit_path eng @ [''core_architecture.json'']) = Some (Document c)
      \<and> fs (circuit_path eng @ [''content.bus.json'']) = Some (Document b)
      \<and> fs (circuit_path eng @ [''moral'', ''registry.json'']) = None
      \<longrightarrow> load_substrate eng fs now = Inl FileNotFoundError)"
    using load_engine_missing(3) [of fs eng c b now] by blast
  show ?thesis
    by (intro conjI) (fact c1 c2 c3 c4 c5 c6 c7 c8 c9)+
qed


theorem config_loader_missing_documents_witness:
  "(\<lambda>p. None) ([] @ [''circuit'', ''core_architecture.json'']) = (None :: file_content option)
   \<and> load_substrate_orch
      \<lparr>base_path = [], substrate = JObject [], content_bus_mo = JObject [],
       moral_registry = JObject [], cycle_count = 0, start_time = ''t''\<rparr> (\<lambda>p. None)
     = ([], Inl FileNotFoundError)
   \<and> (\<exists>out s. load_substrate_orch
          \<lparr>base_path = [], substrate = JObject [], content_bus_mo = JObject [],
           moral_registry = JObject [], cycle_count = 0, start_time = ''t''\<rparr>
          (sample_fs([''circuit'', ''content.bus.json''] := None)) = (out, Inr s)
        \<and> content_bus_mo s = JObject []
        \<and> ContentBusNotFound [''circuit'', ''content.bus.json''] \<in> set out
        \<and> is_warning (ContentBusNotFound [''circuit'', ''content.bus.json'']))
   \<and> (\<exists>out s. load_substrate_orch
          \<lparr>base_path = [], substrate = JObject [], content_bus_mo = JObject [],
           moral_registry = JObject [], cycle_count = 0, start_time = ''t''\<rparr>
          (sample_fs([''circuit'', ''moral'', ''registry.json''] := None)) = (out, Inr s)
        \<and> moral_registry s = JObject []
        \<and> MoralRegistryNotFound [''circuit'', ''moral'', ''registry.json''] \<in> set out
        \<and> is_warning (MoralRegistryNotFound [''circuit'', ''moral'', ''registry.json'']))
   \<and> load_substrate sample_engine (\<lambda>p. None) ''t'' = Inl FileNotFoundError
   \<and> load_substrate sample_engine (sample_fs([''circuit'', ''content.bus.json''] := None)) ''t''
     = Inl FileNotFoundError
   \<and> load_substrate sample_engine (sample_fs([''circuit'', ''moral'', ''registry.json''] := None)) ''t''
     = Inl FileNotFoundError"
proof -
  let ?orch = "\<lparr>base_path = [], substrate = JObject [], content_bus_mo = JObject [],
       moral_registry = JObject [], cycle_count = 0, start_time = ''t''\<rparr>"
  let ?nobus = "sample_fs([''circuit'', ''content.bus.json''] := None)"
  let ?nomoral = "sample_fs([''circuit'', ''moral'', ''registry.json''] := None)"
  have ent: "bind_result (subscript2 sample_core ''meta_orchestrator'' ''core_identity'')
           (\<lambda>i. subscript i ''entity'') = Inr (JString ''LORD'')"
    by (simp add: sample_core_def subscript2_def bind_result_def)
  have cre: "bind_result (subscript2 sample_core ''meta_orchestrator'' ''core_identity'')
           (\<lambda>i. subscript i ''creation_timestamp'') = Inr (JString ''2026-02-14T07:37:48.684645Z'')"
    by (simp add: sample_core_def subscript2_def bind_result_def)
  have z: "(\<lambda>p. None) ([] @ [''circuit'', ''core_architecture.json'']) = (None :: file_content option)"
    by simp
  have a: "load_substrate_orch ?orch (\<lambda>p. None) = ([], Inl FileNotFoundError)"
    using config_loader_missing_documents [where self = ?orch and fs = "\<lambda>p. None"]
    by simp
  have b: "\<exists>out s. load_substrate_orch ?orch ?nobus = (out, Inr s)
        \<and> content_bus_mo s = JObject []
        \<and> ContentBusNotFound [''circuit'', ''content.bus.json''] \<in> set out
        \<and> is_warning (ContentBusNotFound [''circuit'', ''content.bus.json''])"
    using config_loader_missing_documents [where self = ?orch and fs = ?nobus
        and sub = sample_core and entity = "JString ''LORD''"
        and creation = "JString ''2026-02-14T07:37:48.684645Z''"] ent cre
    by (simp add: sample_fs_def)
  have c: "\<exists>out s. load_substrate_orch ?orch ?nomoral = (out, Inr s)
        \<and> moral_registry s = JObject []
        \<and> MoralRegistryNotFound [''circuit'', ''moral'', ''registry.json''] \<in> set out
        \<and> is_warning (MoralRegistryNotFound [''circuit'', ''moral'', ''registry.json''])"
    using config_loader_missing_documents [where self = ?orch and fs = ?nomoral
        and sub = sample_core and entity = "JString ''LORD''"
        and creation = "JString ''2026-02-14T07:37:48.684645Z''"] ent cre
    by (simp add: sample_fs_def)
  have d0: "load_substrate sample_engine (\<lambda>p. None) ''t'' = Inl FileNotFoundError"
    using config_loader_missing_documents [where eng = sample_engine and fs = "\<lambda>p. None"
        and now = "''t''"]
    by simp
  have d: "load_substrate sample_engine ?nobus ''t'' = Inl FileNotFoundError"
    using config_loader_missing_documents [where eng = sample_engine and fs = ?nobus
        and c = sample_core and now = "''t''"]
    by (simp add: sample_fs_def sample_engine_def)
  have e: "load_substrate sample_engine ?nomoral ''t'' = Inl FileNotFoundError"
    using config_loader_missing_documents [where eng = sample_engine and fs = ?nomoral
        and c = sample_core and b = sample_bus and now = "''t''"]
    by (simp add: sample_fs_def sample_engine_def)
  show ?thesis
    by (intro conjI) (fact z a b c d0 d e)+
qed

text \<open>
  For \<open>AwarenessGrowthEngine\<close> the content bus and the moral registry are not optional:
  with the primary document in place, the constructor raises \<open>FileNotFoundError\<close> when
  either is absent.
\<close>

theorem engine_loader_requires_documents_counterexample:
  "sample_fs [''circuit'', ''core_architecture.json''] \<noteq> None
   \<and> (sample_fs([''circuit'', ''content.bus.json''] := None)) [''circuit'', ''content.bus.json'']
       = None
   \<and> init_engine [''circuit''] (sample_fs([''circuit'', ''content.bus.json''] := None)) ''t''
       = Inl FileNotFoundError
   \<and> init_engine [''circuit''] (sample_fs([''circuit'', ''moral'', ''registry.json''] := None)) ''t''
       = Inl FileNotFoundError"
  by (simp add: init_engine_def load_substrate_def open_json_def bind_result_def sample_fs_def)

end
